theory Spec2Isabelle
  imports Complex_Main "HOL-Library.Char_ord" "HOL-Library.List_Lexorder" "HOL-Library.Multiset"
begin

section \<open>Configuration (hmm/config.py)\<close>

definition SESSION_GAP_MS :: int where
  "SESSION_GAP_MS = 30 * 60 * 1000"

definition MIN_SESSION_LENGTH :: nat where
  "MIN_SESSION_LENGTH = 3"

definition PROTO_TCP :: int where "PROTO_TCP = 6"
definition PROTO_UDP :: int where "PROTO_UDP = 17"
definition PROTO_ICMP :: int where "PROTO_ICMP = 1"

definition RANDOM_STATE :: int where "RANDOM_STATE = 42"

section \<open>Flows\<close>

text \<open>
  One row of the flow table. The columns are the ones the pipeline reads; the counts and
  times are Python/numpy integers, modelled as unbounded \<open>int\<close>.
\<close>

record flow =
  IPV4_SRC_ADDR :: string
  IPV4_DST_ADDR :: string
  L4_SRC_PORT :: int
  L4_DST_PORT :: int
  PROTOCOL :: int
  IN_BYTES :: int
  OUT_BYTES :: int
  IN_PKTS :: int
  OUT_PKTS :: int
  FLOW_START_MILLISECONDS :: int
  FLOW_DURATION_MILLISECONDS :: int

section \<open>Errors\<close>

text \<open>
  Exceptions are values. \<open>LibraryError\<close> stands for any exception raised inside an
  external library (hmmlearn, scikit-learn, joblib); all constructors are subclasses of
  Python's \<open>Exception\<close>.
\<close>

datatype error =
    RuntimeError string
  | ValueError string
  | FileNotFoundError string
  | NotFittedError
  | LibraryError string

section \<open>Session builder (hmm/data/session_builder.py)\<close>

record SessionBuilder =
  gap_ms :: int
  min_length :: int

definition SessionBuilder_init :: "int option \<Rightarrow> int option \<Rightarrow> SessionBuilder" where
  "SessionBuilder_init gap min_len =
     \<lparr>gap_ms = (case gap of Some g \<Rightarrow> g | None \<Rightarrow> SESSION_GAP_MS),
      min_length = (case min_len of Some m \<Rightarrow> m | None \<Rightarrow> int MIN_SESSION_LENGTH)\<rparr>"

text \<open>
  A session is the slice of rows together with the value of the added, constant
  \<open>session_id\<close> column.
\<close>

record session =
  session_id :: string
  rows :: "flow list"

text \<open>Decimal rendering of an integer, as the f-string prints it.\<close>

fun str_nat :: "nat \<Rightarrow> string" where
  "str_nat n = (if n < 10 then [char_of (48 + n)]
                else str_nat (n div 10) @ [char_of (48 + n mod 10)])"

definition str_int :: "int \<Rightarrow> string" where
  "str_int i = (if i < 0 then CHR ''-'' # str_nat (nat (- i)) else str_nat (nat i))"

text \<open>\<open>Series.min()\<close>: no value on an empty column (pandas gives NaN).\<close>

definition col_min :: "int list \<Rightarrow> int option" where
  "col_min xs = (case xs of [] \<Rightarrow> None | x # r \<Rightarrow> Some (fold min r x))"

definition create_session :: "SessionBuilder \<Rightarrow> flow list \<Rightarrow> string \<Rightarrow> session option" where
  "create_session self flows src_ip =
     (if int (length flows) < min_length self then None
      else
        let start_time = col_min (map FLOW_START_MILLISECONDS flows);
            sid = src_ip @ ''_'' @ (case start_time of None \<Rightarrow> ''nan'' | Some t \<Rightarrow> str_int t)
        in Some \<lparr>session_id = sid, rows = flows\<rparr>)"

text \<open>\<open>times[1:] - times[:-1]\<close>\<close>

definition gaps :: "int list \<Rightarrow> int list" where
  "gaps tms = map2 (\<lambda>later earlier. later - earlier) (tl tms) (butlast tms)"

text \<open>\<open>(gaps > self.gap_ms).nonzero()[0] + 1\<close>\<close>

definition split_indices :: "int \<Rightarrow> int list \<Rightarrow> nat list" where
  "split_indices gap tms =
     map Suc (filter (\<lambda>i. gaps tms ! i > gap) [0..<length (gaps tms)])"

text \<open>\<open>group.iloc[a:b]\<close> for \<open>0 \<le> a\<close>, \<open>0 \<le> b\<close>.\<close>

definition iloc :: "'a list \<Rightarrow> nat \<Rightarrow> nat \<Rightarrow> 'a list" where
  "iloc xs a b = take (b - a) (drop a xs)"

definition opt_list :: "'a option \<Rightarrow> 'a list" where
  "opt_list x = (case x of None \<Rightarrow> [] | Some v \<Rightarrow> [v])"

text \<open>
  The inner loop over \<open>split_indices\<close> with its running \<open>start_idx\<close>, followed by
  the last slice \<open>group.iloc[start_idx:]\<close>. The result lists the sessions appended.
\<close>

fun split_loop :: "SessionBuilder \<Rightarrow> flow list \<Rightarrow> string \<Rightarrow> nat \<Rightarrow> nat list \<Rightarrow> session list" where
  "split_loop self grp src_ip start_idx [] =
     opt_list (create_session self (drop start_idx grp) src_ip)"
| "split_loop self grp src_ip start_idx (split_idx # rest) =
     opt_list (create_session self (iloc grp start_idx split_idx) src_ip)
       @ split_loop self grp src_ip split_idx rest"

definition group_sessions :: "SessionBuilder \<Rightarrow> flow list \<Rightarrow> string \<Rightarrow> session list" where
  "group_sessions self grp src_ip =
     (let tms = map FLOW_START_MILLISECONDS grp
      in split_loop self grp src_ip 0 (split_indices (gap_ms self) tms))"

text \<open>
  \<open>flows.groupby('IPV4_SRC_ADDR')\<close> visits the distinct keys in ascending order, each
  group keeping the table's row order; \<open>sort_values\<close> then orders the group by start
  time. Rows with equal start times are kept in table order here (pandas leaves their
  order to the sorting algorithm; their gap is 0 either way).
\<close>

definition sorted_group :: "flow list \<Rightarrow> string \<Rightarrow> flow list" where
  "sorted_group flows src_ip =
     sort_key FLOW_START_MILLISECONDS (filter (\<lambda>f. IPV4_SRC_ADDR f = src_ip) flows)"

definition group_keys :: "flow list \<Rightarrow> string list" where
  "group_keys flows = sort (remdups (map IPV4_SRC_ADDR flows))"

definition build_sessions :: "SessionBuilder \<Rightarrow> flow list \<Rightarrow> session list" where
  "build_sessions self flows =
     (if flows = [] then []
      else concat (map (\<lambda>src_ip. group_sessions self (sorted_group flows src_ip) src_ip)
                       (group_keys flows)))"

text \<open>
  For the analysis of the loop: \<open>slices\<close> lists the slices the loop hands to
  \<open>_create_session\<close>, kept or not. \<open>gap_runs\<close> is the segmentation in the words of the
  specification: walk the sorted group and start a new run wherever the gap to the
  previous flow is strictly greater than the threshold.
\<close>

fun slices :: "'a list \<Rightarrow> nat \<Rightarrow> nat list \<Rightarrow> 'a list list" where
  "slices grp start_idx [] = [drop start_idx grp]"
| "slices grp start_idx (split_idx # rest) =
     iloc grp start_idx split_idx # slices grp split_idx rest"

definition cons_head :: "'a \<Rightarrow> 'a list list \<Rightarrow> 'a list list" where
  "cons_head x rs = (case rs of [] \<Rightarrow> [[x]] | r # rs' \<Rightarrow> (x # r) # rs')"

fun gap_runs :: "int \<Rightarrow> flow list \<Rightarrow> flow list list" where
  "gap_runs gap [] = [[]]"
| "gap_runs gap [x] = [[x]]"
| "gap_runs gap (x # y # r) =
     (if FLOW_START_MILLISECONDS y - FLOW_START_MILLISECONDS x > gap
      then [x] # gap_runs gap (y # r)
      else cons_head x (gap_runs gap (y # r)))"

section \<open>Feature extractor (hmm/features/extractor.py)\<close>

text \<open>
  \<open>_port_category\<close> on one element of the port array: the array starts as zeros, the
  first masked assignment writes 1, the second writes 2.
\<close>

definition port_category1 :: "int \<Rightarrow> real" where
  "port_category1 p =
     (let c = 0;
          c = (if p \<ge> 1024 \<and> p \<le> 49151 then 1 else c);
          c = (if p \<ge> 49152 then 2 else c)
      in c)"

definition port_category :: "int list \<Rightarrow> real list" where
  "port_category ports = map port_category1 ports"

text \<open>
  A float64 array entry is a real number or one of the IEEE special values. Finite
  arithmetic is exact (no rounding, no overflow); the special values are the ones numpy
  produces here: \<open>log1p\<close> of \<open>-1\<close> is \<open>-inf\<close> and of anything below is \<open>nan\<close>, and a
  division by zero is \<open>inf\<close>, \<open>-inf\<close> or \<open>nan\<close> by the sign of the numerator. A feature
  matrix is a list of rows.
\<close>

datatype npfloat = Fin real | PInf | NInf | NaN

type_synonym matrix = "npfloat list list"

definition is_inf :: "npfloat \<Rightarrow> bool" where
  "is_inf v = (v = PInf \<or> v = NInf)"

definition log1p :: "real \<Rightarrow> npfloat" where
  "log1p x = (if x > - 1 then Fin (ln (1 + x)) else if x = - 1 then NInf else NaN)"

text \<open>\<open>a / b\<close> on arrays of finite numbers.\<close>

definition true_divide :: "real \<Rightarrow> real \<Rightarrow> npfloat" where
  "true_divide a b =
     (if b \<noteq> 0 then Fin (a / b)
      else if a > 0 then PInf else if a < 0 then NInf else NaN)"

definition clip :: "real \<Rightarrow> real \<Rightarrow> real \<Rightarrow> real" where
  "clip x lo hi = min (max x lo) hi"

text \<open>Inter-arrival times: zeros, with \<open>iat[1:] = times[1:] - times[:-1]\<close> when \<open>n > 1\<close>.\<close>

definition iat_raw :: "real list \<Rightarrow> real list" where
  "iat_raw tms =
     (let n = length tms
      in if n > 1 then 0 # map2 (\<lambda>later earlier. later - earlier) (tl tms) (butlast tms)
         else replicate n 0)"

definition b2f :: "bool \<Rightarrow> real" where
  "b2f b = (if b then 1 else 0)"

text \<open>The twelve columns \<open>features[:, 0]\<close> .. \<open>features[:, 11]\<close>, in order.\<close>

definition feature_columns :: "flow list \<Rightarrow> npfloat list list" where
  "feature_columns flows =
     (let tms = map (\<lambda>f. real_of_int (FLOW_START_MILLISECONDS f)) flows;
          iat = map (\<lambda>x. clip x 0 10000000000) (iat_raw tms)
      in [map (\<lambda>f. log1p (real_of_int (IN_BYTES f))) flows,
          map (\<lambda>f. log1p (real_of_int (OUT_BYTES f))) flows,
          map (\<lambda>f. log1p (real_of_int (IN_PKTS f))) flows,
          map (\<lambda>f. log1p (real_of_int (OUT_PKTS f))) flows,
          map (\<lambda>f. log1p (real_of_int (FLOW_DURATION_MILLISECONDS f))) flows,
          map log1p iat,
          map (\<lambda>f. true_divide (real_of_int (IN_BYTES f)) (real_of_int (OUT_BYTES f + 1))) flows,
          map (\<lambda>f. true_divide (real_of_int (IN_PKTS f + OUT_PKTS f))
                     (real_of_int (max (FLOW_DURATION_MILLISECONDS f) 1) / 1000)) flows,
          map (\<lambda>f. Fin (b2f (PROTOCOL f = PROTO_TCP))) flows,
          map (\<lambda>f. Fin (b2f (PROTOCOL f = PROTO_UDP))) flows,
          map (\<lambda>f. Fin (b2f (PROTOCOL f = PROTO_ICMP))) flows,
          map Fin (port_category (map L4_DST_PORT flows))])"

definition extract_features :: "flow list \<Rightarrow> matrix" where
  "extract_features flows =
     map (\<lambda>i. map (\<lambda>c. c ! i) (feature_columns flows)) [0..<length flows]"

text \<open>
  scikit-learn's \<open>StandardScaler\<close> with its default parameters (an external library).
  Both \<open>fit\<close> and \<open>transform\<close> validate their input first: an array without rows and
  an array holding an infinity are refused with a ValueError, while \<open>nan\<close> entries are
  let through as missing values. \<open>fit\<close> stores, per column, the mean and the population
  standard deviation of the entries that are not \<open>nan\<close>, a constant column getting scale
  1 and a column without any number getting \<open>nan\<close>. \<open>transform\<close> computes
  \<open>(X - mean_) / scale_\<close> on every column it is given, \<open>nan\<close> staying \<open>nan\<close>. A scaler
  is \<open>None\<close> until fitted; \<open>scaler_mean\<close> and \<open>scaler_scale\<close> are its attributes
  \<open>mean_\<close> and \<open>scale_\<close>.
\<close>

record StandardScaler =
  scaler_mean :: "npfloat list"
  scaler_scale :: "npfloat list"

definition column :: "matrix \<Rightarrow> nat \<Rightarrow> npfloat list" where
  "column X j = map (\<lambda>row. row ! j) X"

definition n_columns :: "matrix \<Rightarrow> nat" where
  "n_columns X = (case X of [] \<Rightarrow> 0 | row # _ \<Rightarrow> length row)"

text \<open>The input validation shared by \<open>fit\<close> and \<open>transform\<close>.\<close>

definition check_array :: "matrix \<Rightarrow> error option" where
  "check_array X =
     (if \<exists>row \<in> set X. \<exists>v \<in> set row. is_inf v
      then Some (ValueError ''Input X contains infinity or a value too large'')
      else if X = [] then Some (ValueError ''Found array with 0 sample(s)'')
      else None)"

text \<open>The entries of a column that are numbers.\<close>

definition numbers :: "npfloat list \<Rightarrow> real list" where
  "numbers c = concat (map (\<lambda>v. case v of Fin r \<Rightarrow> [r] | _ \<Rightarrow> []) c)"

definition col_mean :: "npfloat list \<Rightarrow> npfloat" where
  "col_mean c =
     (let xs = numbers c
      in if xs = [] then NaN else Fin (sum_list xs / real (length xs)))"

definition col_var :: "npfloat list \<Rightarrow> npfloat" where
  "col_var c =
     (let xs = numbers c
      in case col_mean c of
           Fin mu \<Rightarrow> Fin (sum_list (map (\<lambda>x. (x - mu)\<^sup>2) xs) / real (length xs))
         | _ \<Rightarrow> NaN)"

definition col_scale :: "npfloat list \<Rightarrow> npfloat" where
  "col_scale c =
     (case col_var c of
        Fin v \<Rightarrow> if v = 0 then Fin 1 else Fin (sqrt v)
      | _ \<Rightarrow> NaN)"

text \<open>
  One entry of \<open>(X - mean_) / scale_\<close>. Validation has removed the infinities, and a
  stored scale is never 0.
\<close>

definition standardize :: "npfloat \<Rightarrow> npfloat \<Rightarrow> npfloat \<Rightarrow> npfloat" where
  "standardize v mu sd =
     (case v of
        Fin x \<Rightarrow>
          (case mu of
             Fin m \<Rightarrow> (case sd of Fin s \<Rightarrow> Fin ((x - m) / s) | _ \<Rightarrow> NaN)
           | _ \<Rightarrow> NaN)
      | _ \<Rightarrow> NaN)"

definition scaler_fit :: "matrix \<Rightarrow> error + StandardScaler" where
  "scaler_fit X =
     (case check_array X of
        Some e \<Rightarrow> Inl e
      | None \<Rightarrow>
          Inr \<lparr>scaler_mean = map (\<lambda>j. col_mean (column X j)) [0..<n_columns X],
               scaler_scale = map (\<lambda>j. col_scale (column X j)) [0..<n_columns X]\<rparr>)"

definition scaler_transform :: "StandardScaler option \<Rightarrow> matrix \<Rightarrow> error + matrix" where
  "scaler_transform sc X =
     (case sc of
        None \<Rightarrow> Inl NotFittedError
      | Some p \<Rightarrow>
          (case check_array X of
             Some e \<Rightarrow> Inl e
           | None \<Rightarrow>
               if \<exists>row \<in> set X. length row \<noteq> length (scaler_mean p)
               then Inl (ValueError ''X has a different number of features'')
               else Inr (map (\<lambda>row. map (\<lambda>j. standardize (row ! j) (scaler_mean p ! j)
                                                  (scaler_scale p ! j))
                                          [0..<length row]) X)))"

record FlowFeatureExtractor =
  scaler :: "StandardScaler option"
  is_fitted :: bool

definition FlowFeatureExtractor_init :: FlowFeatureExtractor where
  "FlowFeatureExtractor_init = \<lparr>scaler = None, is_fitted = False\<rparr>"

text \<open>
  \<open>fit_transform\<close> returns the normalized array and the updated extractor. The
  scaler's \<open>fit\<close> first forgets what it had stored, so a fit that raises leaves the
  scaler unfitted, and \<open>_is_fitted\<close> is set only when the scaler call has returned.
\<close>

definition fit_transform :: "FlowFeatureExtractor \<Rightarrow> flow list \<Rightarrow> (error + matrix) \<times> FlowFeatureExtractor" where
  "fit_transform self flows =
     (let raw_features = extract_features flows
      in case scaler_fit raw_features of
           Inl e \<Rightarrow> (Inl e, self\<lparr>scaler := None\<rparr>)
         | Inr p \<Rightarrow>
             (case scaler_transform (Some p) raw_features of
                Inl e \<Rightarrow> (Inl e, self\<lparr>scaler := Some p\<rparr>)
              | Inr normalized \<Rightarrow>
                  (Inr normalized, self\<lparr>scaler := Some p, is_fitted := True\<rparr>)))"

definition transform :: "FlowFeatureExtractor \<Rightarrow> flow list \<Rightarrow> bool \<Rightarrow> error + matrix" where
  "transform self flows normalize_flag =
     (let raw_features = extract_features flows
      in if normalize_flag \<and> is_fitted self then scaler_transform (scaler self) raw_features
         else Inr raw_features)"

text \<open>The scaler parameters that fitting on the features of a training table stores.\<close>

definition fitted_on :: "flow list \<Rightarrow> StandardScaler" where
  "fitted_on training =
     \<lparr>scaler_mean = map (\<lambda>j. col_mean (column (extract_features training) j)) [0..<12],
      scaler_scale = map (\<lambda>j. col_scale (column (extract_features training) j)) [0..<12]\<rparr>"

text \<open>A table none of whose features is an infinity.\<close>

definition no_infinity :: "flow list \<Rightarrow> bool" where
  "no_infinity flows = (\<forall>row \<in> set (extract_features flows). \<forall>v \<in> set row. \<not> is_inf v)"

text \<open>
  A table whose counters are not negative, as a flow exporter writes them; every
  feature of such a table is a number.
\<close>

definition plausible :: "flow list \<Rightarrow> bool" where
  "plausible flows =
     (\<forall>f \<in> set flows. 0 \<le> IN_BYTES f \<and> 0 \<le> OUT_BYTES f \<and> 0 \<le> IN_PKTS f
                        \<and> 0 \<le> OUT_PKTS f \<and> 0 \<le> FLOW_DURATION_MILLISECONDS f)"

section \<open>Hidden-Markov model wrapper (hmm/model/hmm.py)\<close>

text \<open>
  hmmlearn's \<open>GaussianHMM\<close> is an external library. Its operations are parameters:
  objects of type \<open>'m\<close> are its estimators, \<open>GaussianHMM\<close> is the constructor
  (components, iterations, seed; \<open>covariance_type\<close> is always \<open>'diag'\<close>), and every
  operation may raise. Observations are a matrix of rows with a list of sequence lengths.
\<close>

record 'm hmmlearn =
  GaussianHMM :: "int \<Rightarrow> int \<Rightarrow> int \<Rightarrow> 'm"
  lib_fit :: "'m \<Rightarrow> matrix \<Rightarrow> int list \<Rightarrow> error + 'm"
  lib_predict :: "'m \<Rightarrow> matrix \<Rightarrow> int list \<Rightarrow> error + int list"
  lib_score :: "'m \<Rightarrow> matrix \<Rightarrow> int list \<Rightarrow> error + real"
  lib_transmat :: "'m \<Rightarrow> error + matrix"
  lib_means :: "'m \<Rightarrow> error + matrix"
  lib_covars :: "'m \<Rightarrow> error + matrix"

definition DEFAULT_N_STATES :: int where "DEFAULT_N_STATES = 10"
definition N_ITER :: int where "N_ITER = 100"

record 'm AttackPhaseHMM =
  n_states :: int
  n_iter :: int
  random_state :: int
  model :: "'m option"

definition AttackPhaseHMM_init :: "int \<Rightarrow> int \<Rightarrow> int option \<Rightarrow> 'm AttackPhaseHMM" where
  "AttackPhaseHMM_init k iters seed =
     \<lparr>n_states = k, n_iter = iters,
      random_state = (case seed of Some r \<Rightarrow> r | None \<Rightarrow> RANDOM_STATE),
      model = None\<rparr>"

definition not_fitted :: error where
  "not_fitted = RuntimeError ''Model not fitted. Call fit() first.''"

text \<open>
  Each method returns its result (or the exception) together with the object as the
  method leaves it. \<open>fit\<close> assigns the new estimator to \<open>self.model\<close> before fitting
  it, so the assignment survives a failing fit.
\<close>

definition fit :: "'m hmmlearn \<Rightarrow> 'm AttackPhaseHMM \<Rightarrow> matrix \<Rightarrow> int list \<Rightarrow> (error + unit) \<times> 'm AttackPhaseHMM" where
  "fit lib self X lens =
     (let est = GaussianHMM lib (n_states self) (n_iter self) (random_state self);
          self1 = self\<lparr>model := Some est\<rparr>
      in case lib_fit lib est X lens of
           Inl e \<Rightarrow> (Inl e, self1)
         | Inr est' \<Rightarrow> (Inr (), self1\<lparr>model := Some est'\<rparr>))"

definition predict_states :: "'m hmmlearn \<Rightarrow> 'm AttackPhaseHMM \<Rightarrow> matrix \<Rightarrow> int list \<Rightarrow> (error + int list) \<times> 'm AttackPhaseHMM" where
  "predict_states lib self X lens =
     (case model self of
        None \<Rightarrow> (Inl not_fitted, self)
      | Some m \<Rightarrow> (lib_predict lib m X lens, self))"

definition score :: "'m hmmlearn \<Rightarrow> 'm AttackPhaseHMM \<Rightarrow> matrix \<Rightarrow> int list \<Rightarrow> (error + real) \<times> 'm AttackPhaseHMM" where
  "score lib self X lens =
     (case model self of
        None \<Rightarrow> (Inl not_fitted, self)
      | Some m \<Rightarrow> (lib_score lib m X lens, self))"

definition get_transition_matrix :: "'m hmmlearn \<Rightarrow> 'm AttackPhaseHMM \<Rightarrow> (error + matrix) \<times> 'm AttackPhaseHMM" where
  "get_transition_matrix lib self =
     (case model self of
        None \<Rightarrow> (Inl not_fitted, self)
      | Some m \<Rightarrow> (lib_transmat lib m, self))"

definition get_emission_means :: "'m hmmlearn \<Rightarrow> 'm AttackPhaseHMM \<Rightarrow> (error + matrix) \<times> 'm AttackPhaseHMM" where
  "get_emission_means lib self =
     (case model self of
        None \<Rightarrow> (Inl not_fitted, self)
      | Some m \<Rightarrow> (lib_means lib m, self))"

definition get_emission_covariances :: "'m hmmlearn \<Rightarrow> 'm AttackPhaseHMM \<Rightarrow> (error + matrix) \<times> 'm AttackPhaseHMM" where
  "get_emission_covariances lib self =
     (case model self of
        None \<Rightarrow> (Inl not_fitted, self)
      | Some m \<Rightarrow> (lib_covars lib m, self))"

text \<open>\<open>X.shape\<close> of a list of rows; the logarithm is the real one.\<close>

definition compute_bic :: "'m hmmlearn \<Rightarrow> 'm AttackPhaseHMM \<Rightarrow> matrix \<Rightarrow> int list \<Rightarrow> (error + real) \<times> 'm AttackPhaseHMM" where
  "compute_bic lib self X lens =
     (case model self of
        None \<Rightarrow> (Inl not_fitted, self)
      | Some m \<Rightarrow>
          let n_samples = length X; n_features = n_columns X
          in case lib_score lib m X lens of
               Inl e \<Rightarrow> (Inl e, self)
             | Inr log_likelihood \<Rightarrow>
                 let n_params = (n_states self - 1)
                                + n_states self * (n_states self - 1)
                                + n_states self * int n_features * 2
                 in (Inr (- 2 * log_likelihood + real_of_int n_params * ln (real n_samples)),
                     self))"

text \<open>
  Persistence. \<open>joblib.dump\<close>/\<open>joblib.load\<close> are external: the file system is a map
  from paths to the pickled dictionaries, and a dumped object is read back as it was
  written. The dictionary has the four keys \<open>'n_states'\<close>, \<open>'n_iter'\<close>,
  \<open>'random_state'\<close>, \<open>'model'\<close>.
\<close>

record 'm model_data =
  data_n_states :: int
  data_n_iter :: int
  data_random_state :: int
  data_model :: "'m option"

type_synonym 'm disk = "string \<rightharpoonup> 'm model_data"

definition save :: "'m AttackPhaseHMM \<Rightarrow> string \<Rightarrow> 'm disk \<Rightarrow> 'm disk" where
  "save self path fs =
     (let d = \<lparr>data_n_states = n_states self,
                data_n_iter = n_iter self,
                data_random_state = random_state self,
                data_model = model self\<rparr>
      in fs(path \<mapsto> d))"

definition load :: "'m disk \<Rightarrow> string \<Rightarrow> error + 'm AttackPhaseHMM" where
  "load fs path =
     (case fs path of
        None \<Rightarrow> Inl (FileNotFoundError path)
      | Some d \<Rightarrow>
          let inst = AttackPhaseHMM_init (data_n_states d) (data_n_iter d)
                       (Some (data_random_state d))
          in Inr (inst\<lparr>model := data_model d\<rparr>))"

text \<open>
  Model-order selection. \<open>best_bic\<close> starts as \<open>np.inf\<close>, written \<open>None\<close>; a real
  BIC is below it. The body of the \<open>try\<close> is \<open>candidate_bic\<close>; \<open>except Exception\<close>
  catches whatever it raises.
\<close>

definition candidate_bic :: "'m hmmlearn \<Rightarrow> matrix \<Rightarrow> int list \<Rightarrow> int \<Rightarrow> int \<Rightarrow> int \<Rightarrow> error + real" where
  "candidate_bic lib X lens iters seed k =
     (let m0 = AttackPhaseHMM_init k iters (Some seed)
      in case fit lib m0 X lens of
           (Inl e, _) \<Rightarrow> Inl e
         | (Inr _, m1) \<Rightarrow> fst (compute_bic lib m1 X lens))"

definition bic_less :: "real \<Rightarrow> real option \<Rightarrow> bool" where
  "bic_less bic best = (case best of None \<Rightarrow> True | Some b \<Rightarrow> bic < b)"

definition select_step :: "(int \<Rightarrow> error + real) \<Rightarrow> int \<Rightarrow> real option \<times> int \<Rightarrow> real option \<times> int" where
  "select_step cand k acc =
     (case acc of (best_bic, best_k) \<Rightarrow>
        (case cand k of
           Inl e \<Rightarrow> (best_bic, best_k)
         | Inr bic \<Rightarrow> if bic_less bic best_bic then (Some bic, k) else (best_bic, best_k)))"

definition select_loop :: "(int \<Rightarrow> error + real) \<Rightarrow> int list \<Rightarrow> real option \<times> int \<Rightarrow> real option \<times> int" where
  "select_loop cand ks acc = fold (select_step cand) ks acc"

definition select_n_states :: "'m hmmlearn \<Rightarrow> matrix \<Rightarrow> int list \<Rightarrow> int \<Rightarrow> int \<Rightarrow> int \<Rightarrow> int \<Rightarrow> error + int" where
  "select_n_states lib X lens min_states max_states iters seed =
     Inr (snd (select_loop (candidate_bic lib X lens iters seed)
                 [min_states..max_states] (None, min_states)))"

section \<open>State analyzer (hmm/interpretation/state_analyzer.py)\<close>

record StateSignature =
  state_id :: int
  avg_in_bytes :: real
  avg_out_bytes :: real
  bytes_ratio :: real
  avg_duration_ms :: real
  avg_pkts_per_sec :: real
  protocol_dist :: "string \<rightharpoonup> real"
  port_category_dist :: "int \<rightharpoonup> real"
  flow_count :: int

text \<open>\<open>Series.mean()\<close>; a group of \<open>groupby\<close> is never empty.\<close>

definition mean :: "real list \<Rightarrow> real" where
  "mean xs = sum_list xs / real (length xs)"

definition count_where :: "('a \<Rightarrow> bool) \<Rightarrow> 'a list \<Rightarrow> real" where
  "count_where P xs = real (length (filter P xs))"

definition compute_protocol_dist :: "int list \<Rightarrow> (string \<rightharpoonup> real)" where
  "compute_protocol_dist protocols =
     (let n = length protocols
      in if n = 0 then [''tcp'' \<mapsto> 0, ''udp'' \<mapsto> 0, ''icmp'' \<mapsto> 0]
         else [''tcp'' \<mapsto> count_where (\<lambda>p. p = PROTO_TCP) protocols / real n,
               ''udp'' \<mapsto> count_where (\<lambda>p. p = PROTO_UDP) protocols / real n,
               ''icmp'' \<mapsto> count_where (\<lambda>p. p = PROTO_ICMP) protocols / real n])"

definition compute_port_category_dist :: "int list \<Rightarrow> (int \<rightharpoonup> real)" where
  "compute_port_category_dist ports =
     (let n = length ports
      in if n = 0 then [0 \<mapsto> 0, 1 \<mapsto> 0, 2 \<mapsto> 0]
         else [0 \<mapsto> count_where (\<lambda>p. p \<ge> 0 \<and> p \<le> 1023) ports / real n,
               1 \<mapsto> count_where (\<lambda>p. p \<ge> 1024 \<and> p \<le> 49151) ports / real n,
               2 \<mapsto> count_where (\<lambda>p. p \<ge> 49152) ports / real n])"

definition compute_signature :: "int \<Rightarrow> flow list \<Rightarrow> StateSignature" where
  "compute_signature sid flows =
     (let n = length flows;
          in_b = mean (map (\<lambda>f. real_of_int (IN_BYTES f)) flows);
          out_b = mean (map (\<lambda>f. real_of_int (OUT_BYTES f)) flows)
      in \<lparr>state_id = sid,
          avg_in_bytes = in_b,
          avg_out_bytes = out_b,
          bytes_ratio = in_b / (out_b + 1),
          avg_duration_ms = mean (map (\<lambda>f. real_of_int (FLOW_DURATION_MILLISECONDS f)) flows),
          avg_pkts_per_sec =
            mean (map (\<lambda>f. real_of_int (IN_PKTS f + OUT_PKTS f)
                             / (real_of_int (max (FLOW_DURATION_MILLISECONDS f) 1) / 1000)) flows),
          protocol_dist = compute_protocol_dist (map PROTOCOL flows),
          port_category_dist = compute_port_category_dist (map L4_DST_PORT flows),
          flow_count = int n\<rparr>)"

text \<open>
  The analysed frame is the list of rows paired with their \<open>HMM_STATE\<close>;
  \<open>groupby('HMM_STATE')\<close> visits the distinct states in ascending order.
\<close>

definition analyze :: "(flow \<times> int) list \<Rightarrow> StateSignature list" where
  "analyze labeled =
     sort_key state_id
       (map (\<lambda>st. compute_signature st (map fst (filter (\<lambda>r. snd r = st) labeled)))
            (sort (remdups (map snd labeled))))"

section \<open>Tactic mapper (hmm/interpretation/mitre_mapper.py)\<close>

text \<open>
  A profile of the mapper: the name it reports (the first field of the source's
  dataclass) and its scoring function.
\<close>

record TacticProfile =
  tactic_name :: string
  score_fn :: "StateSignature \<Rightarrow> real"

definition clamp :: "real \<Rightarrow> real" where
  "clamp v = max 0 (min 1 v)"

text \<open>\<open>d.get(k, 0)\<close>\<close>

definition dget :: "('k \<rightharpoonup> real) \<Rightarrow> 'k \<Rightarrow> real" where
  "dget d k = (case d k of None \<Rightarrow> 0 | Some v \<Rightarrow> v)"

text \<open>\<open>if c: score += w\<close>\<close>

definition add_if :: "bool \<Rightarrow> real \<Rightarrow> real \<Rightarrow> real" where
  "add_if c w sc = (if c then sc + w else sc)"

definition reconnaissance_score :: "StateSignature \<Rightarrow> real" where
  "reconnaissance_score sg =
     (let sc = 0;
          sc = add_if (avg_in_bytes sg < 500 \<and> avg_out_bytes sg < 500) 0.3 sc;
          sc = add_if (avg_duration_ms sg < 1000) 0.2 sc;
          sc = add_if (avg_pkts_per_sec sg > 10) 0.2 sc;
          sc = add_if (dget (port_category_dist sg) 0 > 0.5) 0.3 sc
      in clamp sc)"

definition exfiltration_score :: "StateSignature \<Rightarrow> real" where
  "exfiltration_score sg =
     (let sc = 0;
          sc = add_if (avg_out_bytes sg > 10000) 0.3 sc;
          sc = add_if (bytes_ratio sg < 0.1) 0.3 sc;
          sc = add_if (avg_duration_ms sg > 10000) 0.2 sc;
          sc = add_if (dget (port_category_dist sg) 2 > 0.5) 0.2 sc
      in clamp sc)"

definition c2_score :: "StateSignature \<Rightarrow> real" where
  "c2_score sg =
     (let sc = 0;
          sc = add_if (avg_duration_ms sg > 30000) 0.3 sc;
          sc = add_if (avg_pkts_per_sec sg < 2) 0.2 sc;
          sc = add_if (0.5 < bytes_ratio sg \<and> bytes_ratio sg < 2.0) 0.1 sc;
          sc = add_if (dget (port_category_dist sg) 2 > 0.5) 0.2 sc;
          sc = add_if (dget (protocol_dist sg) ''tcp'' > 0.8) 0.2 sc
      in clamp sc)"

definition lateral_movement_score :: "StateSignature \<Rightarrow> real" where
  "lateral_movement_score sg =
     (let sc = 0;
          sc = add_if (1000 < avg_in_bytes sg \<and> avg_in_bytes sg < 100000) 0.2 sc;
          dist = port_category_dist sg;
          sc = add_if (dget dist 0 > 0.2 \<and> dget dist 1 > 0.2) 0.3 sc;
          sc = add_if (1000 < avg_duration_ms sg \<and> avg_duration_ms sg < 30000) 0.2 sc;
          sc = add_if (dget (protocol_dist sg) ''tcp'' > 0.7) 0.3 sc
      in clamp sc)"

definition benign_score :: "StateSignature \<Rightarrow> real" where
  "benign_score sg =
     (let sc = 0;
          sc = add_if (0.5 < bytes_ratio sg \<and> bytes_ratio sg < 2.0) 0.3 sc;
          sc = add_if (dget (protocol_dist sg) ''tcp'' < 0.9
                       \<and> dget (protocol_dist sg) ''udp'' > 0.1) 0.2 sc;
          sc = add_if (flow_count sg > 1000) 0.2 sc;
          dist = port_category_dist sg;
          sc = add_if (dget dist 0 > 0.2 \<and> dget dist 1 > 0.2) 0.3 sc
      in clamp sc)"

definition credential_access_score :: "StateSignature \<Rightarrow> real" where
  "credential_access_score sg =
     (let sc = 0;
          sc = add_if (avg_in_bytes sg < 1000 \<and> avg_out_bytes sg < 1000) 0.3 sc;
          sc = add_if (dget (port_category_dist sg) 0 > 0.6) 0.3 sc;
          sc = add_if (avg_duration_ms sg < 5000) 0.2 sc;
          sc = add_if (dget (protocol_dist sg) ''tcp'' > 0.9) 0.2 sc
      in clamp sc)"

record MitreMapper =
  profiles :: "TacticProfile list"

text \<open>\<open>MitreMapper.__init__\<close>: the profile list, in declaration order.\<close>

definition MitreMapper_init :: MitreMapper where
  "MitreMapper_init =
     \<lparr>profiles =
        [\<lparr>tactic_name = ''Reconnaissance'', score_fn = reconnaissance_score\<rparr>,
         \<lparr>tactic_name = ''Discovery'', score_fn = reconnaissance_score\<rparr>,
         \<lparr>tactic_name = ''Credential Access'', score_fn = credential_access_score\<rparr>,
         \<lparr>tactic_name = ''Lateral Movement'', score_fn = lateral_movement_score\<rparr>,
         \<lparr>tactic_name = ''Command and Control'', score_fn = c2_score\<rparr>,
         \<lparr>tactic_name = ''Exfiltration'', score_fn = exfiltration_score\<rparr>,
         \<lparr>tactic_name = ''Benign'', score_fn = benign_score\<rparr>]\<rparr>"

text \<open>The loop of \<open>MitreMapper.map\<close> over \<open>self.profiles\<close>, from a running best.\<close>

fun map_loop :: "TacticProfile list \<Rightarrow> StateSignature \<Rightarrow> string \<times> real \<Rightarrow> string \<times> real" where
  "map_loop [] sg best = best"
| "map_loop (profile # rest) sg (best_tactic, best_score) =
     (let sc = score_fn profile sg
      in if sc > best_score then map_loop rest sg (tactic_name profile, sc)
         else map_loop rest sg (best_tactic, best_score))"

definition MitreMapper_map :: "MitreMapper \<Rightarrow> StateSignature \<Rightarrow> string \<times> real" where
  "MitreMapper_map self sg = map_loop (profiles self) sg (''Unknown'', 0)"

text \<open>The dict comprehension of \<open>map_all\<close>: a later signature overwrites an equal key.\<close>

definition map_all :: "MitreMapper \<Rightarrow> StateSignature list \<Rightarrow> (int \<rightharpoonup> string \<times> real)" where
  "map_all self signatures =
     fold (\<lambda>sg d. d(state_id sg \<mapsto> MitreMapper_map self sg)) signatures Map.empty"

section \<open>Labeling command (hmm/cli/label.py)\<close>

text \<open>The output table: a flow row extended by the three added columns.\<close>

record labeled_flow = flow +
  HMM_STATE :: int
  HMM_TACTIC :: string
  HMM_CONFIDENCE :: real

definition add_columns :: "flow \<Rightarrow> int \<Rightarrow> string \<Rightarrow> real \<Rightarrow> labeled_flow" where
  "add_columns f st tac conf =
     flow.extend f (labeled_flow.fields st tac conf)"

text \<open>
  The loop over the sessions: features, states, the \<open>HMM_STATE\<close> column; pandas
  raises when the state array and the session differ in length. The result is the
  concatenated frame, rows paired with their state.
\<close>

fun label_sessions :: "'m hmmlearn \<Rightarrow> 'm AttackPhaseHMM \<Rightarrow> FlowFeatureExtractor \<Rightarrow> session list \<Rightarrow> error + (flow \<times> int) list" where
  "label_sessions lib mdl ex [] = Inr []"
| "label_sessions lib mdl ex (s # ss) =
     (case transform ex (rows s) (is_fitted ex) of
        Inl e \<Rightarrow> Inl e
      | Inr features \<Rightarrow>
          (case fst (predict_states lib mdl features [int (length features)]) of
             Inl e \<Rightarrow> Inl e
           | Inr states \<Rightarrow>
               if length states \<noteq> length (rows s)
               then Inl (ValueError ''Length of values does not match length of index'')
               else (case label_sessions lib mdl ex ss of
                       Inl e \<Rightarrow> Inl e
                     | Inr rest \<Rightarrow> Inr (zip (rows s) states @ rest))))"

definition mapping_get :: "(int \<rightharpoonup> string \<times> real) \<Rightarrow> int \<Rightarrow> string \<times> real" where
  "mapping_get mappings s = (case mappings s of None \<Rightarrow> (''Unknown'', 0) | Some v \<Rightarrow> v)"

text \<open>
  \<open>label_flows\<close>: the model file is read from the disk, the extractor file is either
  present or missing (then a fresh extractor is used), the flow table is the loaded
  parquet table, and the result is the table written to the output path.
\<close>

definition label_flows :: "'m hmmlearn \<Rightarrow> 'm disk \<Rightarrow> string \<Rightarrow> FlowFeatureExtractor option \<Rightarrow> flow list \<Rightarrow> error + labeled_flow list" where
  "label_flows lib fs model_path extractor_file flows =
     (case load fs model_path of
        Inl e \<Rightarrow> Inl e
      | Inr mdl \<Rightarrow>
          let extractor = (case extractor_file of
                             Some ex \<Rightarrow> ex
                           | None \<Rightarrow> FlowFeatureExtractor_init);
              builder = SessionBuilder_init None None;
              sessions = build_sessions builder flows
          in if sessions = []
             then Inr (map (\<lambda>f. add_columns f (- 1) ''Unknown'' 0) flows)
             else (case label_sessions lib mdl extractor sessions of
                     Inl e \<Rightarrow> Inl e
                   | Inr labeled_df \<Rightarrow>
                       let signatures = analyze labeled_df;
                           mappings = map_all MitreMapper_init signatures
                       in Inr (map (\<lambda>(f, s). add_columns f s
                                                (fst (mapping_get mappings s))
                                                (snd (mapping_get mappings s)))
                                   labeled_df)))"

section \<open>Sample inputs\<close>

text \<open>
  Two stand-ins for the external HMM library, used to run the wrapper on concrete inputs.
  An estimator is its number of components. \<open>steady_lib\<close> fits every candidate, scores
  0 and decodes every observation as state 0; \<open>diverging_lib\<close> raises in every fit;
  \<open>flaky_lib\<close> raises for 4 components only.
\<close>

definition steady_lib :: "int hmmlearn" where
  "steady_lib =
     \<lparr>GaussianHMM = (\<lambda>k iters seed. k),
      lib_fit = (\<lambda>m X lens. Inr m),
      lib_predict = (\<lambda>m X lens. Inr (replicate (length X) 0)),
      lib_score = (\<lambda>m X lens. Inr 0),
      lib_transmat = (\<lambda>m. Inr []),
      lib_means = (\<lambda>m. Inr []),
      lib_covars = (\<lambda>m. Inr [])\<rparr>"

definition diverging_lib :: "int hmmlearn" where
  "diverging_lib = steady_lib\<lparr>lib_fit := (\<lambda>m X lens. Inl (LibraryError ''diverged''))\<rparr>"

definition flaky_lib :: "int hmmlearn" where
  "flaky_lib =
     steady_lib\<lparr>lib_fit := (\<lambda>m X lens. if m = 4 then Inl (LibraryError ''diverged'') else Inr m)\<rparr>"

text \<open>A flow of the given source, start time, destination port and protocol.\<close>

definition mk_flow :: "string \<Rightarrow> int \<Rightarrow> int \<Rightarrow> int \<Rightarrow> flow" where
  "mk_flow src t port proto =
     \<lparr>IPV4_SRC_ADDR = src, IPV4_DST_ADDR = ''10.0.0.100'', L4_SRC_PORT = 40000,
      L4_DST_PORT = port, PROTOCOL = proto, IN_BYTES = 100, OUT_BYTES = 200,
      IN_PKTS = 2, OUT_PKTS = 3, FLOW_START_MILLISECONDS = t,
      FLOW_DURATION_MILLISECONDS = 50\<rparr>"

text \<open>
  Two flows to ports 8080 and 65000, one TCP and one UDP; one flow to port 22; and a flow
  whose \<open>OUT_BYTES\<close> is \<open>-1\<close>.
\<close>

definition two_port_flows :: "flow list" where
  "two_port_flows = [mk_flow ''10.0.0.1'' 1000 8080 6, mk_flow ''10.0.0.1'' 2000 65000 17]"

definition ssh_flows :: "flow list" where
  "ssh_flows = [mk_flow ''10.0.0.1'' 5000 22 6]"

definition odd_flows :: "flow list" where
  "odd_flows = [(mk_flow ''10.0.0.1'' 1000 80 6)\<lparr>OUT_BYTES := - 1\<rparr>]"

text \<open>
  A table with one source that forms a session of three flows and one source with a
  single flow, and a disk holding a fitted model under \<open>model.pkl\<close>.
\<close>

definition mixed_flows :: "flow list" where
  "mixed_flows =
     [mk_flow ''10.0.0.1'' 1000 80 6, mk_flow ''10.0.0.1'' 2000 80 6,
      mk_flow ''10.0.0.1'' 3000 80 6, mk_flow ''10.0.0.2'' 1000 80 6]"

definition fitted_disk :: "int disk" where
  "fitted_disk =
     save (snd (fit steady_lib (AttackPhaseHMM_init 5 100 None) [[Fin 0]] [1])) ''model.pkl'' Map.empty"

text \<open>The signature of the exfiltration scenario, other fields chosen at will.\<close>

definition exfil_signature :: StateSignature where
  "exfil_signature =
     \<lparr>state_id = 0, avg_in_bytes = 100, avg_out_bytes = 100000, bytes_ratio = 0.001,
      avg_duration_ms = 30000, avg_pkts_per_sec = 5,
      protocol_dist = [''tcp'' \<mapsto> 1, ''udp'' \<mapsto> 0, ''icmp'' \<mapsto> 0],
      port_category_dist = [0 \<mapsto> 0.1, 1 \<mapsto> 0.2, 2 \<mapsto> 0.7],
      flow_count = 10\<rparr>"

text \<open>A mapper whose single profile scores 0 on every signature.\<close>

definition silent_mapper :: MitreMapper where
  "silent_mapper = \<lparr>profiles = [\<lparr>tactic_name = ''Benign'', score_fn = (\<lambda>sg. 0)\<rparr>]\<rparr>"

section \<open>Properties\<close>

subsection \<open>Session builder\<close>

text \<open>
  The loop produces the kept slices; the slices cut at \<open>split_indices\<close> are the runs
  of the specification; the runs partition the group, have inner gaps at most the
  threshold and are separated by gaps above it.
\<close>

lemma split_loop_slices:
  "split_loop self grp src_ip a idxs =
     concat (map (\<lambda>r. opt_list (create_session self r src_ip)) (slices grp a idxs))"
  by (induction idxs arbitrary: a) simp_all

lemma rows_of_created:
  "map rows (concat (map (\<lambda>r. opt_list (create_session self r src_ip)) rs)) =
     filter (\<lambda>r. min_length self \<le> int (length r)) rs"
  by (induction rs) (simp_all add: opt_list_def create_session_def Let_def)

lemma slices_Cons_Suc: "slices (x # g) (Suc a) (map Suc idxs) = slices g a idxs"
  by (induction idxs arbitrary: a) (simp_all add: iloc_def)

lemma slices_Cons_0: "slices (x # g) 0 (map Suc idxs) = cons_head x (slices g 0 idxs)"
  by (cases idxs) (simp_all add: cons_head_def iloc_def slices_Cons_Suc)

lemma gaps_Cons2: "gaps (a # b # ts) = (b - a) # gaps (b # ts)"
  by (simp add: gaps_def)

lemma filter_upt_Suc:
  "filter P [0..<Suc n] = (if P 0 then [0] else []) @ map Suc (filter (\<lambda>i. P (Suc i)) [0..<n])"
proof -
  have "[0..<Suc n] = 0 # map Suc [0..<n]"
    by (simp add: upt_conv_Cons map_Suc_upt del: upt_Suc)
  then show ?thesis by (simp add: filter_map comp_def del: upt_Suc)
qed

lemma split_indices_Cons2:
  "split_indices gap (a # b # ts) =
     (if b - a > gap then [Suc 0] else []) @ map Suc (split_indices gap (b # ts))"
  unfolding split_indices_def gaps_Cons2
  by (simp add: filter_upt_Suc del: upt_Suc)

lemma slices_gap_runs:
  "slices g 0 (split_indices gap (map FLOW_START_MILLISECONDS g)) = gap_runs gap g"
proof (induction gap g rule: gap_runs.induct)
  case (1 gap)
  show ?case by (simp add: split_indices_def gaps_def)
next
  case (2 gap x)
  show ?case by (simp add: split_indices_def gaps_def)
next
  case (3 gap x y r)
  show ?case
  proof (cases "FLOW_START_MILLISECONDS y - FLOW_START_MILLISECONDS x > gap")
    case True
    then show ?thesis
      using "3.IH"(1) by (simp add: split_indices_Cons2 iloc_def slices_Cons_Suc)
  next
    case False
    then show ?thesis
      using "3.IH"(2) slices_Cons_0 [of x "y # r" "split_indices gap (map FLOW_START_MILLISECONDS (y # r))"]
      by (simp add: split_indices_Cons2)
  qed
qed







lemma group_sessions_rows:
  "map rows (group_sessions self g src_ip) =
     filter (\<lambda>r. min_length self \<le> int (length r)) (gap_runs (gap_ms self) g)"
  by (simp add: group_sessions_def split_loop_slices rows_of_created slices_gap_runs)


lemma mk_flow_fields:
  "IPV4_SRC_ADDR (mk_flow src t port proto) = src"
  "FLOW_START_MILLISECONDS (mk_flow src t port proto) = t"
  "L4_DST_PORT (mk_flow src t port proto) = port"
  "PROTOCOL (mk_flow src t port proto) = proto"
  by (simp_all add: mk_flow_def)

lemma build_sessions_rows:
  "map rows (build_sessions self flows) =
     concat (map (\<lambda>src_ip. filter (\<lambda>r. min_length self \<le> int (length r))
                              (gap_runs (gap_ms self) (sorted_group flows src_ip)))
                 (group_keys flows))"
  by (cases "flows = []")
     (simp_all add: build_sessions_def group_keys_def map_concat comp_def group_sessions_rows)






subsection \<open>Port categories\<close>

text \<open>
  C10. For every integer destination port the port category is 0 below 1024 (negative
  ports included), 1 from 1024 to 49151, and 2 from 49152 upwards with no upper bound;
  the function is total, so ports outside 0..65535 are categorised, not rejected.
\<close>

theorem port_category_total:
  "length (port_category ports) = length ports \<and>
   (\<forall>i < length ports.
      port_category ports ! i =
        (if ports ! i < 1024 then 0 else if ports ! i \<le> 49151 then 1 else 2))"
  by (simp add: port_category_def port_category1_def)

theorem port_category_total_witness:
  "port_category [-5, 22, 1023, 1024, 49151, 49152, 65000, 70000] = [0, 0, 0, 1, 1, 2, 2, 2]"
  using port_category_total [of "[-5, 22, 1023, 1024, 49151, 49152, 65000, 70000]"]
  by (simp add: port_category_def port_category1_def)

subsection \<open>Feature extractor\<close>

text \<open>
  The raw matrix has one row per flow and twelve columns; column 8 is the TCP indicator
  and column 11 the port category. A table whose counters are not negative has no
  infinite feature. On a non-empty table without infinite features the scaler's
  validation passes, \<open>fit_transform\<close> stores the scaler fitted on the training
  features, and a normalizing \<open>transform\<close> applies it to all twelve columns.
\<close>

lemma feature_columns_length: "length (feature_columns flows) = 12"
  by (simp add: feature_columns_def Let_def)

lemma extract_features_length: "length (extract_features flows) = length flows"
  by (simp add: extract_features_def)

lemma extract_features_row_length:
  "row \<in> set (extract_features flows) \<Longrightarrow> length row = 12"
  by (auto simp: extract_features_def feature_columns_length)

lemma extract_features_n_columns:
  "flows \<noteq> [] \<Longrightarrow> n_columns (extract_features flows) = 12"
proof -
  assume ne: "flows \<noteq> []"
  then have "extract_features flows \<noteq> []"
    using extract_features_length [of flows] by auto
  then obtain row rest where eq: "extract_features flows = row # rest"
    by (cases "extract_features flows") auto
  then have "length row = 12" using extract_features_row_length [of row flows] by simp
  with eq show ?thesis by (simp add: n_columns_def)
qed

lemma extract_features_row:
  "i < length flows \<Longrightarrow> extract_features flows ! i = map (\<lambda>c. c ! i) (feature_columns flows)"
  by (simp add: extract_features_def)

lemma extract_features_port_category:
  assumes "i < length flows"
  shows "extract_features flows ! i ! 11 = Fin (port_category1 (L4_DST_PORT (flows ! i)))"
proof -
  have "extract_features flows ! i ! 11 = feature_columns flows ! 11 ! i"
    using assms by (simp add: extract_features_row feature_columns_length)
  also have "feature_columns flows ! 11 = map Fin (port_category (map L4_DST_PORT flows))"
    by (simp add: feature_columns_def Let_def)
  finally show ?thesis using assms by (simp add: port_category_def)
qed

lemma extract_features_is_tcp:
  assumes "i < length flows"
  shows "extract_features flows ! i ! 8 = Fin (b2f (PROTOCOL (flows ! i) = PROTO_TCP))"
proof -
  have "extract_features flows ! i ! 8 = feature_columns flows ! 8 ! i"
    using assms by (simp add: extract_features_row feature_columns_length)
  also have "feature_columns flows ! 8 = map (\<lambda>f. Fin (b2f (PROTOCOL f = PROTO_TCP))) flows"
    by (simp add: feature_columns_def Let_def)
  finally show ?thesis using assms by simp
qed

lemma iat_raw_length: "length (iat_raw tms) = length tms"
  by (cases tms) (auto simp: iat_raw_def Let_def)

lemma feature_columns_lengths:
  "c \<in> set (feature_columns flows) \<Longrightarrow> length c = length flows"
  by (auto simp: feature_columns_def Let_def iat_raw_length port_category_def)

lemma log1p_number: "0 \<le> x \<Longrightarrow> log1p x = Fin (ln (1 + x))"
  by (simp add: log1p_def)

lemma true_divide_number: "b \<noteq> 0 \<Longrightarrow> true_divide a b = Fin (a / b)"
  by (simp add: true_divide_def)

lemma true_divide_succ:
  "0 \<le> b \<Longrightarrow> true_divide a (real_of_int b + 1) = Fin (a / (real_of_int b + 1))"
proof -
  assume "0 \<le> b"
  then have "real_of_int b + 1 > 0" by simp
  then show ?thesis by (simp add: true_divide_def)
qed

lemma plausible_columns:
  assumes "plausible flows" "c \<in> set (feature_columns flows)" "v \<in> set c"
  shows "\<not> is_inf v"
proof -
  have clipped: "\<And>x. 0 \<le> clip x 0 10000000000" by (simp add: clip_def)
  have pf: "\<And>f. f \<in> set flows \<Longrightarrow>
              0 \<le> IN_BYTES f \<and> 0 \<le> OUT_BYTES f \<and> 0 \<le> IN_PKTS f
              \<and> 0 \<le> OUT_PKTS f \<and> 0 \<le> FLOW_DURATION_MILLISECONDS f"
    using assms(1) by (simp add: plausible_def)
  have cols: "feature_columns flows =
         [map (\<lambda>f. Fin (ln (1 + real_of_int (IN_BYTES f)))) flows,
          map (\<lambda>f. Fin (ln (1 + real_of_int (OUT_BYTES f)))) flows,
          map (\<lambda>f. Fin (ln (1 + real_of_int (IN_PKTS f)))) flows,
          map (\<lambda>f. Fin (ln (1 + real_of_int (OUT_PKTS f)))) flows,
          map (\<lambda>f. Fin (ln (1 + real_of_int (FLOW_DURATION_MILLISECONDS f)))) flows,
          map (\<lambda>x. Fin (ln (1 + clip x 0 10000000000)))
              (iat_raw (map (\<lambda>f. real_of_int (FLOW_START_MILLISECONDS f)) flows)),
          map (\<lambda>f. Fin (real_of_int (IN_BYTES f) / real_of_int (OUT_BYTES f + 1))) flows,
          map (\<lambda>f. Fin (real_of_int (IN_PKTS f + OUT_PKTS f)
                     / (real_of_int (max (FLOW_DURATION_MILLISECONDS f) 1) / 1000))) flows,
          map (\<lambda>f. Fin (b2f (PROTOCOL f = PROTO_TCP))) flows,
          map (\<lambda>f. Fin (b2f (PROTOCOL f = PROTO_UDP))) flows,
          map (\<lambda>f. Fin (b2f (PROTOCOL f = PROTO_ICMP))) flows,
          map Fin (port_category (map L4_DST_PORT flows))]"
    using pf clipped
    by (simp add: feature_columns_def Let_def log1p_number true_divide_number
        true_divide_succ cong: map_cong)
  from assms(2,3) show ?thesis
    unfolding cols by (auto simp: is_inf_def)
qed

lemma plausible_no_infinity: "plausible flows \<Longrightarrow> no_infinity flows"
  unfolding no_infinity_def
proof (intro ballI)
  fix row v
  assume pl: "plausible flows" and r: "row \<in> set (extract_features flows)" and v: "v \<in> set row"
  from r obtain i where i: "i < length flows" "row = map (\<lambda>c. c ! i) (feature_columns flows)"
    by (auto simp: extract_features_def)
  with v obtain c where c: "c \<in> set (feature_columns flows)" "v = c ! i" by auto
  then have "v \<in> set c" using i(1) feature_columns_lengths [OF c(1)] by simp
  then show "\<not> is_inf v" by (rule plausible_columns [OF pl c(1)])
qed

lemma check_array_ok:
  "flows \<noteq> [] \<Longrightarrow> no_infinity flows \<Longrightarrow> check_array (extract_features flows) = None"
  using extract_features_length [of flows]
  by (auto simp: check_array_def no_infinity_def)

lemma scaler_transform_fitted:
  assumes "flows \<noteq> []" "no_infinity flows"
  shows "scaler_transform (Some (fitted_on training)) (extract_features flows) =
           Inr (map (\<lambda>row. map (\<lambda>j. standardize (row ! j)
                                       (col_mean (column (extract_features training) j))
                                       (col_scale (column (extract_features training) j)))
                              [0..<12]) (extract_features flows))"
proof -
  have len: "\<forall>row \<in> set (extract_features flows). length row = length (scaler_mean (fitted_on training))"
    by (simp add: fitted_on_def extract_features_row_length)
  then have "scaler_transform (Some (fitted_on training)) (extract_features flows) =
      Inr (map (\<lambda>row. map (\<lambda>j. standardize (row ! j) (scaler_mean (fitted_on training) ! j)
                                                  (scaler_scale (fitted_on training) ! j))
                                          [0..<length row]) (extract_features flows))"
    using check_array_ok [OF assms] by (simp add: scaler_transform_def)
  also have "\<dots> = Inr (map (\<lambda>row. map (\<lambda>j. standardize (row ! j)
                                       (col_mean (column (extract_features training) j))
                                       (col_scale (column (extract_features training) j)))
                              [0..<12]) (extract_features flows))"
    by (simp add: fitted_on_def extract_features_row_length cong: map_cong)
  finally show ?thesis .
qed

lemma scaler_fit_features:
  assumes "training \<noteq> []" "no_infinity training"
  shows "scaler_fit (extract_features training) = Inr (fitted_on training)"
  using check_array_ok [OF assms] extract_features_n_columns [OF assms(1)]
  by (simp add: scaler_fit_def fitted_on_def)

lemma fit_transform_result:
  assumes "training \<noteq> []" "no_infinity training"
  shows "fit_transform self training =
           (scaler_transform (Some (fitted_on training)) (extract_features training),
            self\<lparr>scaler := Some (fitted_on training), is_fitted := True\<rparr>)"
  by (simp add: fit_transform_def Let_def scaler_fit_features [OF assms]
      scaler_transform_fitted [OF assms])

lemma transform_fitted:
  assumes "scaler self = Some (fitted_on training)" "is_fitted self"
    and "flows \<noteq> []" "no_infinity flows"
  shows "transform self flows True =
           Inr (map (\<lambda>row. map (\<lambda>j. standardize (row ! j)
                                       (col_mean (column (extract_features training) j))
                                       (col_scale (column (extract_features training) j)))
                              [0..<12]) (extract_features flows))"
  using assms(1,2) scaler_transform_fitted [OF assms(3,4), of training]
  by (simp add: transform_def Let_def)

text \<open>
  The sample: fitted on two flows to ports 8080 and 65000, one TCP and one UDP, the
  port-category column has mean 3/2 and scale 1/2, and the TCP column mean 1/2 and scale
  1/2.
\<close>

lemma mk_flow_plausible: "plausible [mk_flow src t port proto]"
  by (simp add: plausible_def mk_flow_def)

lemma two_port_ok: "two_port_flows \<noteq> [] \<and> no_infinity two_port_flows"
  by (simp add: plausible_no_infinity two_port_flows_def plausible_def mk_flow_def)

lemma ssh_ok: "ssh_flows \<noteq> [] \<and> no_infinity ssh_flows"
  by (simp add: plausible_no_infinity ssh_flows_def plausible_def mk_flow_def)

lemma column_two_rows:
  assumes "length flows = 2"
  shows "column (extract_features flows) j
           = [extract_features flows ! 0 ! j, extract_features flows ! 1 ! j]"
proof -
  have "length (extract_features flows) = 2" using assms by (simp add: extract_features_length)
  then obtain r0 r1 where "extract_features flows = [r0, r1]"
    by (cases "extract_features flows"; cases "tl (extract_features flows)") auto
  then show ?thesis by (simp add: column_def)
qed

lemma sqrt_quarter: "sqrt (1 / 4) = 1 / 2"
  by (simp add: real_sqrt_divide)

lemma two_port_column:
  "column (extract_features two_port_flows) 11 = [Fin 1, Fin 2]"
  "column (extract_features two_port_flows) 8 = [Fin 1, Fin 0]"
proof -
  have len: "length two_port_flows = 2" by (simp add: two_port_flows_def)
  show "column (extract_features two_port_flows) 11 = [Fin 1, Fin 2]"
    using extract_features_port_category [of 0 two_port_flows]
          extract_features_port_category [of 1 two_port_flows]
    by (simp add: column_two_rows [OF len])
       (simp add: two_port_flows_def mk_flow_fields port_category1_def)
  show "column (extract_features two_port_flows) 8 = [Fin 1, Fin 0]"
    using extract_features_is_tcp [of 0 two_port_flows]
          extract_features_is_tcp [of 1 two_port_flows]
    by (simp add: column_two_rows [OF len])
       (simp add: two_port_flows_def mk_flow_fields b2f_def PROTO_TCP_def)
qed

lemma two_port_scaler:
  "col_mean (column (extract_features two_port_flows) 11) = Fin (3 / 2)"
  "col_scale (column (extract_features two_port_flows) 11) = Fin (1 / 2)"
  "col_mean (column (extract_features two_port_flows) 8) = Fin (1 / 2)"
  "col_scale (column (extract_features two_port_flows) 8) = Fin (1 / 2)"
  by (simp_all add: two_port_column col_mean_def col_scale_def col_var_def numbers_def
      power2_eq_square sqrt_quarter)

lemma standardize_numbers: "standardize (Fin x) (Fin m) (Fin s) = Fin ((x - m) / s)"
  by (simp add: standardize_def)

text \<open>
  C2, as stated, fails: the fitted scaler is applied to the whole matrix. After fitting
  on the sample, the normalized port category of the first flow is \<open>-1\<close>, not its raw
  value 1, and the normalized TCP indicator of the second flow is \<open>-1\<close>, not its raw
  value 0.
\<close>

theorem port_category_is_standardized:
  "is_fitted (snd (fit_transform FlowFeatureExtractor_init two_port_flows))
   \<and> \<not> isl (transform (snd (fit_transform FlowFeatureExtractor_init two_port_flows))
               two_port_flows True)
   \<and> projr (transform (snd (fit_transform FlowFeatureExtractor_init two_port_flows))
               two_port_flows True) ! 0 ! 11 = Fin (- 1)
   \<and> extract_features two_port_flows ! 0 ! 11 = Fin 1
   \<and> projr (transform (snd (fit_transform FlowFeatureExtractor_init two_port_flows))
               two_port_flows True) ! 1 ! 8 = Fin (- 1)
   \<and> extract_features two_port_flows ! 1 ! 8 = Fin 0"
proof -
  note ok = two_port_ok [THEN conjunct1] two_port_ok [THEN conjunct2]
  let ?ex = "snd (fit_transform FlowFeatureExtractor_init two_port_flows)"
  have st: "?ex = FlowFeatureExtractor_init\<lparr>scaler := Some (fitted_on two_port_flows), is_fitted := True\<rparr>"
    by (simp add: fit_transform_result [OF ok])
  then have sc: "scaler ?ex = Some (fitted_on two_port_flows)" and fi: "is_fitted ?ex" by simp_all
  have len: "length two_port_flows = 2" by (simp add: two_port_flows_def)
  have cols: "[extract_features two_port_flows ! 0 ! 11, extract_features two_port_flows ! 1 ! 11]
                = [Fin 1, Fin 2]"
             "[extract_features two_port_flows ! 0 ! 8, extract_features two_port_flows ! 1 ! 8]
                = [Fin 1, Fin 0]"
    using two_port_column by (simp_all add: column_two_rows [OF len])
  then have raw: "extract_features two_port_flows ! 0 ! 11 = Fin 1"
                 "extract_features two_port_flows ! 1 ! 8 = Fin 0"
    by simp_all
  have l2: "length (extract_features two_port_flows) = 2"
    by (simp add: extract_features_length len)
  have "projr (transform ?ex two_port_flows True) ! 0 ! 11 = Fin (- 1)"
    unfolding transform_fitted [OF sc fi ok]
    using l2 by (simp add: raw two_port_scaler standardize_numbers)
  moreover have "projr (transform ?ex two_port_flows True) ! 1 ! 8 = Fin (- 1)"
    unfolding transform_fitted [OF sc fi ok]
    using l2 raw by (simp add: two_port_scaler standardize_numbers)
  moreover have "\<not> isl (transform ?ex two_port_flows True)"
    unfolding transform_fitted [OF sc fi ok] by simp
  ultimately show ?thesis using fi raw by simp
qed

text \<open>
  C2, amended. After \<open>fit_transform\<close> on a non-empty training table without infinite
  features the extractor is fitted, and \<open>transform\<close> with normalization, on a non-empty
  table without infinite features, standardizes every one of the twelve columns, the
  protocol indicators and the port category included: each entry is the raw feature
  minus the training mean of its column, divided by the training scale of its column.
  \<open>fit_transform\<close> itself returns that transform of the training table. Without
  normalization, or on an extractor that was never fitted, \<open>transform\<close> returns the
  raw features. In the sample the scaler fitted on the two flows maps the port category
  0 of a flow to port 22 to \<open>(0 - 3/2) / (1/2) = -3\<close>.
\<close>

theorem transform_standardizes_all_columns:
  assumes "training \<noteq> []" "no_infinity training" "flows \<noteq> []" "no_infinity flows"
  shows "is_fitted (snd (fit_transform self training))
     \<and> (\<exists>M. transform (snd (fit_transform self training)) flows True = Inr M
            \<and> length M = length flows
            \<and> (\<forall>i < length flows. \<forall>j < 12.
                  M ! i ! j =
                    standardize (extract_features flows ! i ! j)
                      (col_mean (column (extract_features training) j))
                      (col_scale (column (extract_features training) j))))
     \<and> fst (fit_transform self training) = transform (snd (fit_transform self training)) training True
     \<and> transform (snd (fit_transform self training)) flows False = Inr (extract_features flows)
     \<and> transform FlowFeatureExtractor_init flows normalize_flag = Inr (extract_features flows)"
proof -
  let ?ex = "snd (fit_transform self training)"
  let ?M = "map (\<lambda>row. map (\<lambda>j. standardize (row ! j)
                                       (col_mean (column (extract_features training) j))
                                       (col_scale (column (extract_features training) j)))
                              [0..<12]) (extract_features flows)"
  have st: "?ex = self\<lparr>scaler := Some (fitted_on training), is_fitted := True\<rparr>"
    by (simp add: fit_transform_result [OF assms(1,2)])
  then have sc: "scaler ?ex = Some (fitted_on training)" and fi: "is_fitted ?ex" by simp_all
  have tr: "transform ?ex flows True = Inr ?M"
    by (rule transform_fitted [OF sc fi assms(3,4)])
  have el: "length ?M = length flows \<and> (\<forall>i < length flows. \<forall>j < 12.
                  ?M ! i ! j =
                    standardize (extract_features flows ! i ! j)
                      (col_mean (column (extract_features training) j))
                      (col_scale (column (extract_features training) j)))"
    by (simp add: extract_features_length)
  have ft: "fst (fit_transform self training) = transform ?ex training True"
    using sc fi by (simp add: fit_transform_result [OF assms(1,2)] transform_def Let_def)
  have raw1: "transform ?ex flows False = Inr (extract_features flows)"
    by (simp add: transform_def Let_def)
  have raw2: "transform FlowFeatureExtractor_init flows normalize_flag = Inr (extract_features flows)"
    by (simp add: transform_def FlowFeatureExtractor_init_def Let_def)
  from tr el have "\<exists>M. transform ?ex flows True = Inr M
            \<and> length M = length flows
            \<and> (\<forall>i < length flows. \<forall>j < 12.
                  M ! i ! j =
                    standardize (extract_features flows ! i ! j)
                      (col_mean (column (extract_features training) j))
                      (col_scale (column (extract_features training) j)))"
    by (intro exI [of _ ?M]) simp
  with fi ft raw1 raw2 show ?thesis by simp
qed

theorem transform_standardizes_all_columns_witness:
  "two_port_flows \<noteq> [] \<and> no_infinity two_port_flows
   \<and> ssh_flows \<noteq> [] \<and> no_infinity ssh_flows
   \<and> is_fitted (snd (fit_transform FlowFeatureExtractor_init two_port_flows))
   \<and> extract_features ssh_flows ! 0 ! 11 = Fin 0
   \<and> projr (transform (snd (fit_transform FlowFeatureExtractor_init two_port_flows))
               ssh_flows True) ! 0 ! 11 = Fin (- 3)
   \<and> extract_features ssh_flows ! 0 ! 8 = Fin 1
   \<and> projr (transform (snd (fit_transform FlowFeatureExtractor_init two_port_flows))
               ssh_flows True) ! 0 ! 8 = Fin 1
   \<and> transform FlowFeatureExtractor_init ssh_flows True = Inr (extract_features ssh_flows)"
proof -
  note ok = two_port_ok [THEN conjunct1] two_port_ok [THEN conjunct2]
            ssh_ok [THEN conjunct1] ssh_ok [THEN conjunct2]
  have raw: "extract_features ssh_flows ! 0 ! 11 = Fin 0"
            "extract_features ssh_flows ! 0 ! 8 = Fin 1"
    using extract_features_port_category [of 0 ssh_flows] extract_features_is_tcp [of 0 ssh_flows]
    by (simp_all add: ssh_flows_def mk_flow_fields port_category1_def b2f_def PROTO_TCP_def)
  have len: "length ssh_flows = 1" by (simp add: ssh_flows_def)
  from transform_standardizes_all_columns [OF ok, of FlowFeatureExtractor_init True]
  obtain M where
    fi: "is_fitted (snd (fit_transform FlowFeatureExtractor_init two_port_flows))" and
    tr: "transform (snd (fit_transform FlowFeatureExtractor_init two_port_flows))
           ssh_flows True = Inr M" and
    el: "\<forall>i < length ssh_flows. \<forall>j < 12.
                  M ! i ! j =
                    standardize (extract_features ssh_flows ! i ! j)
                      (col_mean (column (extract_features two_port_flows) j))
                      (col_scale (column (extract_features two_port_flows) j))" and
    rw: "transform FlowFeatureExtractor_init ssh_flows True
           = Inr (extract_features ssh_flows)"
    by auto
  from el len raw have "M ! 0 ! 11 = Fin (- 3)" "M ! 0 ! 8 = Fin 1"
    by (simp_all add: two_port_scaler standardize_numbers)
  with ok fi tr rw raw show ?thesis by simp
qed

text \<open>
  Outside these conditions the scaler raises: a fitted extractor refuses an empty table,
  and fitting on a flow whose \<open>OUT_BYTES\<close> is \<open>-1\<close> (its bytes ratio is infinite)
  fails and leaves the extractor unfitted.
\<close>

lemma transform_rejects_empty:
  assumes "is_fitted self" "scaler self = Some p"
  shows "transform self [] True = Inl (ValueError ''Found array with 0 sample(s)'')"
  using assms by (simp add: transform_def scaler_transform_def check_array_def extract_features_def)

lemma fit_transform_rejects_infinity:
  "fit_transform FlowFeatureExtractor_init odd_flows
     = (Inl (ValueError ''Input X contains infinity or a value too large''),
        FlowFeatureExtractor_init)"
proof -
  have "extract_features odd_flows ! 0 ! 6 = PInf"
    by (simp add: extract_features_row odd_flows_def feature_columns_def Let_def
        mk_flow_def true_divide_def)
  moreover have "length (extract_features odd_flows) = 1"
    by (simp add: extract_features_length odd_flows_def)
  moreover have "length (extract_features odd_flows ! 0) = 12"
    by (simp add: extract_features_row odd_flows_def feature_columns_length)
  ultimately have "\<exists>row \<in> set (extract_features odd_flows). \<exists>v \<in> set row. is_inf v"
    by (intro bexI [of _ "extract_features odd_flows ! 0"] bexI [of _ PInf])
       (auto simp: is_inf_def in_set_conv_nth intro!: exI [of _ 6])
  then show ?thesis
    by (simp add: fit_transform_def Let_def scaler_fit_def check_array_def
        FlowFeatureExtractor_init_def)
qed

subsection \<open>Hidden-Markov model wrapper\<close>

text \<open>
  C6. On a model whose \<open>fit\<close> was never called (\<open>self.model\<close> is \<open>None\<close>), each of
  \<open>predict_states\<close>, \<open>score\<close>, \<open>get_transition_matrix\<close>, \<open>get_emission_means\<close>,
  \<open>get_emission_covariances\<close> and \<open>compute_bic\<close> raises the RuntimeError that names
  the missing call to \<open>fit()\<close>, and leaves the object as it was.
\<close>

theorem untrained_model_fails:
  assumes "model self = None"
  shows "predict_states lib self X lens
           = (Inl (RuntimeError ''Model not fitted. Call fit() first.''), self)
       \<and> score lib self X lens
           = (Inl (RuntimeError ''Model not fitted. Call fit() first.''), self)
       \<and> get_transition_matrix lib self
           = (Inl (RuntimeError ''Model not fitted. Call fit() first.''), self)
       \<and> get_emission_means lib self
           = (Inl (RuntimeError ''Model not fitted. Call fit() first.''), self)
       \<and> get_emission_covariances lib self
           = (Inl (RuntimeError ''Model not fitted. Call fit() first.''), self)
       \<and> compute_bic lib self X lens
           = (Inl (RuntimeError ''Model not fitted. Call fit() first.''), self)"
  using assms
  by (simp add: predict_states_def score_def get_transition_matrix_def get_emission_means_def
      get_emission_covariances_def compute_bic_def not_fitted_def)

theorem untrained_model_fails_witness:
  "model (AttackPhaseHMM_init 10 100 None :: int AttackPhaseHMM) = None
   \<and> predict_states steady_lib (AttackPhaseHMM_init 10 100 None) [[Fin 0]] [1]
       = (Inl (RuntimeError ''Model not fitted. Call fit() first.''), AttackPhaseHMM_init 10 100 None)
   \<and> compute_bic steady_lib (AttackPhaseHMM_init 10 100 None) [[Fin 0]] [1]
       = (Inl (RuntimeError ''Model not fitted. Call fit() first.''), AttackPhaseHMM_init 10 100 None)"
  using untrained_model_fails [of "AttackPhaseHMM_init 10 100 None" steady_lib "[[Fin 0]]" "[1]"]
  by (simp add: AttackPhaseHMM_init_def)

text \<open>The selection loop: a failed candidate leaves the running best untouched.\<close>

lemma select_step_failed: "isl (cand k) \<Longrightarrow> select_step cand k acc = acc"
  by (cases acc; cases "cand k") (simp_all add: select_step_def)

lemma select_loop_key: "snd (select_loop cand ks acc) \<in> insert (snd acc) (set ks)"
proof (induction ks arbitrary: acc)
  case Nil
  then show ?case by (simp add: select_loop_def)
next
  case (Cons k ks)
  have "snd (select_step cand k acc) = snd acc \<or> snd (select_step cand k acc) = k"
    by (cases acc; cases "cand k") (simp_all add: select_step_def)
  moreover have "snd (select_loop cand (k # ks) acc)
                   \<in> insert (snd (select_step cand k acc)) (set ks)"
    using Cons.IH [of "select_step cand k acc"] by (simp add: select_loop_def)
  ultimately show ?case by auto
qed

lemma select_loop_all_failed:
  "\<forall>k \<in> set ks. isl (cand k) \<Longrightarrow> select_loop cand ks acc = acc"
  by (induction ks arbitrary: acc) (simp_all add: select_loop_def select_step_failed)

lemma select_loop_skip:
  "select_loop cand ks acc = select_loop cand (filter (\<lambda>k. \<not> isl (cand k)) ks) acc"
  by (induction ks arbitrary: acc) (simp_all add: select_loop_def select_step_failed)

lemma diverging_candidate:
  "candidate_bic diverging_lib X lens iters seed k = Inl (LibraryError ''diverged'')"
  by (simp add: candidate_bic_def fit_def diverging_lib_def steady_lib_def)

lemma flaky_candidate:
  "candidate_bic flaky_lib X lens iters seed k =
     (if k = 4 then Inl (LibraryError ''diverged'')
      else Inr (real_of_int ((k - 1) + k * (k - 1) + k * int (n_columns X) * 2) * ln (real (length X))))"
  by (simp add: candidate_bic_def fit_def flaky_lib_def steady_lib_def compute_bic_def
      AttackPhaseHMM_init_def Let_def)

text \<open>
  C7. For \<open>min_states \<le> max_states\<close>, \<open>select_n_states\<close> returns a value in the
  inclusive range, and when every candidate of the range raises it returns
  \<open>min_states\<close>, the lowest candidate.
\<close>

theorem select_n_states_in_range:
  assumes "min_states \<le> max_states"
  shows "\<exists>k. select_n_states lib X lens min_states max_states iters seed = Inr k
             \<and> min_states \<le> k \<and> k \<le> max_states
             \<and> ((\<forall>j \<in> {min_states..max_states}. isl (candidate_bic lib X lens iters seed j))
                  \<longrightarrow> k = min_states)"
proof -
  let ?cand = "candidate_bic lib X lens iters seed"
  let ?k = "snd (select_loop ?cand [min_states..max_states] (None, min_states))"
  have "?k \<in> insert min_states (set [min_states..max_states])"
    using select_loop_key [of ?cand "[min_states..max_states]" "(None, min_states)"] by simp
  then have "min_states \<le> ?k \<and> ?k \<le> max_states" using assms by auto
  moreover have "(\<forall>j \<in> {min_states..max_states}. isl (?cand j)) \<longrightarrow> ?k = min_states"
    by (simp add: select_loop_all_failed)
  ultimately show ?thesis by (simp add: select_n_states_def)
qed

theorem select_n_states_in_range_witness:
  "(4::int) \<le> 6
   \<and> select_n_states flaky_lib [[Fin 0]] [1] 4 6 50 42 = Inr 5
   \<and> select_n_states diverging_lib [[Fin 0]] [1] 4 6 50 42 = Inr 4"
  using select_n_states_in_range [of 4 6 flaky_lib "[[Fin 0]]" "[1]" 50 42]
        select_n_states_in_range [of 4 6 diverging_lib "[[Fin 0]]" "[1]" 50 42]
  by (simp add: select_n_states_def select_loop_def select_step_def bic_less_def
      flaky_candidate diverging_candidate upto.simps n_columns_def)

text \<open>
  C8, as stated, fails: when every candidate of the range raises, \<open>select_n_states\<close>
  raises nothing and returns \<open>min_states\<close>. Here both candidates 4 and 5 fail.
\<close>

theorem all_candidates_fail_no_error:
  "candidate_bic diverging_lib [[Fin 0]] [1] 50 42 4 = Inl (LibraryError ''diverged'')
   \<and> candidate_bic diverging_lib [[Fin 0]] [1] 50 42 5 = Inl (LibraryError ''diverged'')
   \<and> select_n_states diverging_lib [[Fin 0]] [1] 4 5 50 42 = Inr 4"
  by (simp add: select_n_states_def select_loop_def select_step_def
      diverging_candidate upto.simps)

text \<open>
  C8, amended. A candidate whose fit or BIC raises is skipped: the result is the one the
  loop computes over the remaining candidates alone. When every candidate raises, no
  error is raised; the result is \<open>min_states\<close>.
\<close>

theorem failed_candidates_skipped:
  "select_n_states lib X lens min_states max_states iters seed =
     Inr (snd (select_loop (candidate_bic lib X lens iters seed)
            (filter (\<lambda>k. \<not> isl (candidate_bic lib X lens iters seed k))
                    [min_states..max_states])
            (None, min_states)))
   \<and> ((\<forall>k \<in> {min_states..max_states}. isl (candidate_bic lib X lens iters seed k))
        \<longrightarrow> select_n_states lib X lens min_states max_states iters seed = Inr min_states)"
  using select_loop_skip [of "candidate_bic lib X lens iters seed" "[min_states..max_states]"
          "(None, min_states)"]
  by (simp add: select_n_states_def select_loop_all_failed)

theorem failed_candidates_skipped_witness:
  "select_n_states flaky_lib [[Fin 0]] [1] 4 5 50 42 = Inr 5
   \<and> select_n_states diverging_lib [[Fin 0]] [1] 7 9 50 42 = Inr 7"
  using failed_candidates_skipped [of flaky_lib "[[Fin 0]]" "[1]" 4 5 50 42]
        failed_candidates_skipped [of diverging_lib "[[Fin 0]]" "[1]" 7 9 50 42]
  by (simp add: select_loop_def select_step_def bic_less_def
      flaky_candidate diverging_candidate upto.simps n_columns_def)

text \<open>
  C9. Saving a model and loading the file again gives back the same \<open>n_states\<close>,
  \<open>n_iter\<close>, \<open>random_state\<close> and trained estimator, so decoding and scoring the same
  observations with the loaded model give the results of the original one. This holds
  for every model, fitted ones in particular.
\<close>

theorem save_load_roundtrip:
  "\<exists>loaded. load (save self path fs) path = Inr loaded
      \<and> loaded = self
      \<and> n_states loaded = n_states self \<and> n_iter loaded = n_iter self
      \<and> random_state loaded = random_state self \<and> model loaded = model self
      \<and> fst (predict_states lib loaded X lens) = fst (predict_states lib self X lens)
      \<and> fst (score lib loaded X lens) = fst (score lib self X lens)"
proof -
  have "load (save self path fs) path = Inr self"
    by (cases self) (simp add: save_def load_def AttackPhaseHMM_init_def)
  then show ?thesis by simp
qed

subsection \<open>Tactic mapper\<close>

text \<open>
  The loop of \<open>map\<close> from a running best \<open>(t0, s0)\<close>: either no profile scores above
  \<open>s0\<close> and the best is unchanged, or the result is a profile that scores strictly above
  everything before it and at least as much as everything after it.
\<close>

lemma map_loop_cases:
  "map_loop ps sg (t0, s0) = (t, c) \<Longrightarrow>
     ((\<forall>p \<in> set ps. score_fn p sg \<le> s0) \<and> t = t0 \<and> c = s0)
   \<or> (\<exists>pre p post. ps = pre @ p # post \<and> t = tactic_name p \<and> c = score_fn p sg \<and> s0 < c
          \<and> (\<forall>q \<in> set pre. score_fn q sg < c) \<and> (\<forall>q \<in> set post. score_fn q sg \<le> c))"
proof (induction ps arbitrary: t0 s0)
  case Nil
  then show ?case by simp
next
  case (Cons a ps)
  show ?case
  proof (cases "score_fn a sg > s0")
    case True
    with Cons.prems have run: "map_loop ps sg (tactic_name a, score_fn a sg) = (t, c)"
      by (simp add: Let_def)
    from Cons.IH [OF run] show ?thesis
    proof (elim disjE exE conjE)
      assume h: "\<forall>p \<in> set ps. score_fn p sg \<le> score_fn a sg" "t = tactic_name a" "c = score_fn a sg"
      have "a # ps = [] @ a # ps \<and> t = tactic_name a \<and> c = score_fn a sg \<and> s0 < c
          \<and> (\<forall>q \<in> set []. score_fn q sg < c) \<and> (\<forall>q \<in> set ps. score_fn q sg \<le> c)"
        using h True by simp
      then show ?thesis by (intro disjI2 exI)
    next
      fix pre p post
      assume h: "ps = pre @ p # post" "t = tactic_name p" "c = score_fn p sg"
          "score_fn a sg < c" "\<forall>q \<in> set pre. score_fn q sg < c" "\<forall>q \<in> set post. score_fn q sg \<le> c"
      have "a # ps = (a # pre) @ p # post \<and> t = tactic_name p \<and> c = score_fn p sg \<and> s0 < c
          \<and> (\<forall>q \<in> set (a # pre). score_fn q sg < c) \<and> (\<forall>q \<in> set post. score_fn q sg \<le> c)"
        using h True by simp
      then show ?thesis by (intro disjI2 exI)
    qed
  next
    case False
    with Cons.prems have run: "map_loop ps sg (t0, s0) = (t, c)"
      by (simp add: Let_def)
    from Cons.IH [OF run] show ?thesis
    proof (elim disjE exE conjE)
      assume "\<forall>p \<in> set ps. score_fn p sg \<le> s0" "t = t0" "c = s0"
      with False show ?thesis by simp
    next
      fix pre p post
      assume h: "ps = pre @ p # post" "t = tactic_name p" "c = score_fn p sg"
          "s0 < c" "\<forall>q \<in> set pre. score_fn q sg < c" "\<forall>q \<in> set post. score_fn q sg \<le> c"
      have "a # ps = (a # pre) @ p # post \<and> t = tactic_name p \<and> c = score_fn p sg \<and> s0 < c
          \<and> (\<forall>q \<in> set (a # pre). score_fn q sg < c) \<and> (\<forall>q \<in> set post. score_fn q sg \<le> c)"
        using h False by simp
      then show ?thesis by (intro disjI2 exI)
    qed
  qed
qed


lemma clamp_range: "0 \<le> clamp v \<and> clamp v \<le> 1"
  by (simp add: clamp_def)

lemma init_scores_range:
  "p \<in> set (profiles MitreMapper_init) \<Longrightarrow> 0 \<le> score_fn p sg \<and> score_fn p sg \<le> 1"
  by (auto simp: MitreMapper_init_def reconnaissance_score_def credential_access_score_def
      lateral_movement_score_def c2_score_def exfiltration_score_def benign_score_def
      Let_def clamp_range)

lemma map_loop_unknown:
  assumes "\<forall>p \<in> set ps. score_fn p sg \<le> 0"
  shows "map_loop ps sg (''Unknown'', 0) = (''Unknown'', 0)"
  using assms by (induction ps) (simp_all add: Let_def not_less)

lemma map_loop_positive:
  assumes "\<exists>p \<in> set ps. score_fn p sg > 0"
  shows "\<exists>pre p post. ps = pre @ p # post
            \<and> map_loop ps sg (''Unknown'', 0) = (tactic_name p, score_fn p sg)
            \<and> (\<forall>q \<in> set pre. score_fn q sg < score_fn p sg)
            \<and> (\<forall>q \<in> set post. score_fn q sg \<le> score_fn p sg)"
proof -
  obtain t c where r: "map_loop ps sg (''Unknown'', 0) = (t, c)"
    by (cases "map_loop ps sg (''Unknown'', 0)") simp
  from assms obtain p0 where p0: "p0 \<in> set ps" "score_fn p0 sg > 0" by auto
  then have "\<not> (\<forall>p \<in> set ps. score_fn p sg \<le> 0)" by (auto simp: not_le)
  with map_loop_cases [OF r] obtain pre p post where
    h: "ps = pre @ p # post" "t = tactic_name p" "c = score_fn p sg"
       "\<forall>q \<in> set pre. score_fn q sg < c" "\<forall>q \<in> set post. score_fn q sg \<le> c"
    by auto
  have "ps = pre @ p # post
            \<and> map_loop ps sg (''Unknown'', 0) = (tactic_name p, score_fn p sg)
            \<and> (\<forall>q \<in> set pre. score_fn q sg < score_fn p sg)
            \<and> (\<forall>q \<in> set post. score_fn q sg \<le> score_fn p sg)"
    using h r by simp
  then show ?thesis by (intro exI)
qed

lemma map_loop_init_range:
  "0 \<le> snd (map_loop (profiles MitreMapper_init) sg (''Unknown'', 0))
   \<and> snd (map_loop (profiles MitreMapper_init) sg (''Unknown'', 0)) \<le> 1"
proof -
  obtain t c where r: "map_loop (profiles MitreMapper_init) sg (''Unknown'', 0) = (t, c)"
    by (cases "map_loop (profiles MitreMapper_init) sg (''Unknown'', 0)") simp
  from map_loop_cases [OF r]
  have "c = 0 \<or> (\<exists>p \<in> set (profiles MitreMapper_init). c = score_fn p sg)"
  proof (elim disjE exE conjE)
    assume "c = 0" then show ?thesis by simp
  next
    fix pre p post
    assume "profiles MitreMapper_init = pre @ p # post" "c = score_fn p sg"
    then have "p \<in> set (profiles MitreMapper_init) \<and> c = score_fn p sg" by simp
    then show ?thesis by (intro disjI2 bexI [of _ p]) simp_all
  qed
  then have "0 \<le> c \<and> c \<le> 1"
  proof
    assume "c = 0" then show ?thesis by simp
  next
    assume "\<exists>p \<in> set (profiles MitreMapper_init). c = score_fn p sg"
    then obtain p where "p \<in> set (profiles MitreMapper_init)" "c = score_fn p sg" by auto
    then show ?thesis using init_scores_range [of p sg] by simp
  qed
  with r show ?thesis by simp
qed

text \<open>
  C4. \<open>MitreMapper.map\<close> walks the profile list in its declared order
  (Reconnaissance, Discovery, Credential Access, Lateral Movement, Command and Control,
  Exfiltration, Benign). When every profile scores 0 it returns \<open>('Unknown', 0)\<close>;
  otherwise it returns the name and score of the first profile with the highest score
  (strictly above all earlier ones, at least all later ones). The selection rule holds
  for whatever list \<open>self.profiles\<close> holds; with the declared list the confidence lies
  in \<open>[0, 1]\<close>.
\<close>

theorem mapper_selects_first_maximum:
  "map tactic_name (profiles MitreMapper_init) =
     [''Reconnaissance'', ''Discovery'', ''Credential Access'', ''Lateral Movement'',
      ''Command and Control'', ''Exfiltration'', ''Benign'']
   \<and> ((\<forall>p \<in> set (profiles self). score_fn p sg = 0) \<longrightarrow>
         MitreMapper_map self sg = (''Unknown'', 0))
   \<and> ((\<exists>p \<in> set (profiles self). score_fn p sg > 0) \<longrightarrow>
         (\<exists>pre p post. profiles self = pre @ p # post
            \<and> MitreMapper_map self sg = (tactic_name p, score_fn p sg)
            \<and> (\<forall>q \<in> set pre. score_fn q sg < score_fn p sg)
            \<and> (\<forall>q \<in> set post. score_fn q sg \<le> score_fn p sg)))
   \<and> 0 \<le> snd (MitreMapper_map MitreMapper_init sg)
   \<and> snd (MitreMapper_map MitreMapper_init sg) \<le> 1"
proof (intro conjI impI)
  show "map tactic_name (profiles MitreMapper_init) =
     [''Reconnaissance'', ''Discovery'', ''Credential Access'', ''Lateral Movement'',
      ''Command and Control'', ''Exfiltration'', ''Benign'']"
    by (simp add: MitreMapper_init_def)
next
  assume "\<forall>p \<in> set (profiles self). score_fn p sg = 0"
  then have "\<forall>p \<in> set (profiles self). score_fn p sg \<le> 0" by simp
  then show "MitreMapper_map self sg = (''Unknown'', 0)"
    unfolding MitreMapper_map_def by (rule map_loop_unknown)
next
  assume "\<exists>p \<in> set (profiles self). score_fn p sg > 0"
  then show "\<exists>pre p post. profiles self = pre @ p # post
            \<and> MitreMapper_map self sg = (tactic_name p, score_fn p sg)
            \<and> (\<forall>q \<in> set pre. score_fn q sg < score_fn p sg)
            \<and> (\<forall>q \<in> set post. score_fn q sg \<le> score_fn p sg)"
    unfolding MitreMapper_map_def by (rule map_loop_positive)
next
  show "0 \<le> snd (MitreMapper_map MitreMapper_init sg)"
    unfolding MitreMapper_map_def using map_loop_init_range [of sg] by simp
next
  show "snd (MitreMapper_map MitreMapper_init sg) \<le> 1"
    unfolding MitreMapper_map_def using map_loop_init_range [of sg] by simp
qed

theorem mapper_selects_first_maximum_witness:
  "MitreMapper_map silent_mapper exfil_signature = (''Unknown'', 0)
   \<and> MitreMapper_map MitreMapper_init exfil_signature = (''Exfiltration'', 1)"
  using mapper_selects_first_maximum [of silent_mapper exfil_signature]
        mapper_selects_first_maximum [of MitreMapper_init exfil_signature]
  by (simp add: MitreMapper_map_def MitreMapper_init_def silent_mapper_def exfil_signature_def
      reconnaissance_score_def credential_access_score_def lateral_movement_score_def
      c2_score_def exfiltration_score_def benign_score_def add_if_def clamp_def dget_def)

text \<open>
  In the scenario the exfiltration profile collects all four weights, and every other
  profile misses at least one of its checks.
\<close>

lemma scenario_scores:
  assumes "avg_out_bytes sg = 100000" "bytes_ratio sg = 0.001" "avg_duration_ms sg = 30000"
    "port_category_dist sg 2 = Some 0.7"
  shows "exfiltration_score sg = 1"
    and "reconnaissance_score sg < 1"
    and "credential_access_score sg < 1"
    and "lateral_movement_score sg < 1"
    and "c2_score sg < 1"
    and "benign_score sg \<le> 1"
  using assms
  by (simp_all add: reconnaissance_score_def credential_access_score_def
      lateral_movement_score_def c2_score_def exfiltration_score_def benign_score_def
      add_if_def clamp_def dget_def Let_def)

text \<open>
  C5. Every signature with \<open>avg_out_bytes = 100000\<close>, \<open>bytes_ratio = 0.001\<close>,
  \<open>avg_duration_ms = 30000\<close> and ephemeral-port fraction 0.7, whatever its other
  fields, is mapped to \<open>'Exfiltration'\<close> with a confidence above 0.3.
\<close>

theorem exfiltration_scenario:
  assumes "avg_out_bytes sg = 100000" "bytes_ratio sg = 0.001" "avg_duration_ms sg = 30000"
    "port_category_dist sg 2 = Some 0.7"
  shows "fst (MitreMapper_map MitreMapper_init sg) = ''Exfiltration''
       \<and> snd (MitreMapper_map MitreMapper_init sg) > 0.3"
  using scenario_scores [OF assms]
  by (simp add: MitreMapper_map_def MitreMapper_init_def Let_def)

theorem exfiltration_scenario_witness:
  "avg_out_bytes exfil_signature = 100000 \<and> bytes_ratio exfil_signature = 0.001
   \<and> avg_duration_ms exfil_signature = 30000
   \<and> port_category_dist exfil_signature 2 = Some 0.7
   \<and> fst (MitreMapper_map MitreMapper_init exfil_signature) = ''Exfiltration''
   \<and> snd (MitreMapper_map MitreMapper_init exfil_signature) > 0.3"
  using exfiltration_scenario [of exfil_signature]
  by (simp add: exfil_signature_def)

subsection \<open>Labeling command\<close>

text \<open>
  When no session is built, every input flow is written with state \<open>-1\<close>, label
  \<open>'Unknown'\<close> and confidence 0.
\<close>

lemma label_flows_no_sessions:
  assumes "load fs model_path = Inr mdl"
    and "build_sessions (SessionBuilder_init None None) flows = []"
  shows "label_flows lib fs model_path extractor_file flows =
           Inr (map (\<lambda>f. add_columns f (- 1) ''Unknown'' 0) flows)"
  using assms by (simp add: label_flows_def Let_def)

text \<open>
  With the stand-in library every session row is decoded as state 0; the sample table
  has one session, the three flows of 10.0.0.1.
\<close>

lemma truncate_add_columns: "flow.truncate (add_columns f st tac conf) = f"
  by (cases f) (simp add: add_columns_def flow.defs labeled_flow.defs)

lemma zip_replicate_const: "zip xs (replicate (length xs) c) = map (\<lambda>x. (x, c)) xs"
  by (induction xs) simp_all

lemma label_sessions_steady:
  assumes "model mdl = Some m"
  shows "label_sessions steady_lib mdl FlowFeatureExtractor_init ss =
           Inr (concat (map (\<lambda>s. map (\<lambda>f. (f, 0)) (rows s)) ss))"
proof (induction ss)
  case Nil
  show ?case by simp
next
  case (Cons s ss)
  have t: "transform FlowFeatureExtractor_init (rows s) (is_fitted FlowFeatureExtractor_init)
             = Inr (extract_features (rows s))"
    by (simp add: transform_def FlowFeatureExtractor_init_def Let_def)
  have p: "fst (predict_states steady_lib mdl (extract_features (rows s))
                  [int (length (extract_features (rows s)))])
             = Inr (replicate (length (rows s)) 0)"
    using assms by (simp add: predict_states_def steady_lib_def extract_features_length)
  show ?case
    using Cons.IH by (simp add: t p zip_replicate_const)
qed

lemma mixed_sessions_rows:
  "map rows (build_sessions (SessionBuilder_init None None) mixed_flows) =
     [[mk_flow ''10.0.0.1'' 1000 80 6, mk_flow ''10.0.0.1'' 2000 80 6,
       mk_flow ''10.0.0.1'' 3000 80 6]]"
  by (simp add: build_sessions_rows group_keys_def sorted_group_def SessionBuilder_init_def
      mixed_flows_def mk_flow_fields cons_head_def SESSION_GAP_MS_def MIN_SESSION_LENGTH_def)

lemma load_fitted_disk:
  "load fitted_disk ''model.pkl'' =
     Inr \<lparr>n_states = 5, n_iter = 100, random_state = 42, model = Some 5\<rparr>"
  by (simp add: fitted_disk_def load_def save_def fit_def steady_lib_def
      AttackPhaseHMM_init_def RANDOM_STATE_def Let_def)

text \<open>
  C1 on the sample table. The claim asks for every input flow in the output, the flow of
  10.0.0.2 (which is in no session) with state \<open>-1\<close>. \<open>label_flows\<close> succeeds and
  writes the three session flows only: the table it saves is the concatenation of the
  labeled sessions, and the step announced in the source as merging back with the
  original flows is missing. The flow of 10.0.0.2 is in the input and not in the output.
\<close>

theorem label_flows_drops_unsessioned:
  "\<not> isl (label_flows steady_lib fitted_disk ''model.pkl'' None mixed_flows)
   \<and> map flow.truncate (projr (label_flows steady_lib fitted_disk ''model.pkl'' None mixed_flows))
       = [mk_flow ''10.0.0.1'' 1000 80 6, mk_flow ''10.0.0.1'' 2000 80 6,
          mk_flow ''10.0.0.1'' 3000 80 6]
   \<and> mk_flow ''10.0.0.2'' 1000 80 6 \<in> set mixed_flows
   \<and> mk_flow ''10.0.0.2'' 1000 80 6
       \<notin> set (map flow.truncate
                 (projr (label_flows steady_lib fitted_disk ''model.pkl'' None mixed_flows)))"
proof -
  let ?mdl = "\<lparr>n_states = 5, n_iter = 100, random_state = 42, model = Some (5::int)\<rparr>"
  let ?ss = "build_sessions (SessionBuilder_init None None) mixed_flows"
  have ne: "?ss \<noteq> []" using mixed_sessions_rows by auto
  have lab: "label_sessions steady_lib ?mdl FlowFeatureExtractor_init ?ss =
           Inr (concat (map (\<lambda>s. map (\<lambda>f. (f, 0)) (rows s)) ?ss))"
    by (rule label_sessions_steady) simp
  have rows_eq: "concat (map (\<lambda>s. map (\<lambda>f. (f, 0::int)) (rows s)) ?ss)
                = map (\<lambda>f. (f, 0)) (concat (map rows ?ss))"
    by (simp add: map_concat comp_def)
  have out: "label_flows steady_lib fitted_disk ''model.pkl'' None mixed_flows =
      Inr (map (\<lambda>(f, s). add_columns f s
                 (fst (mapping_get (map_all MitreMapper_init
                        (analyze (map (\<lambda>f. (f, 0)) (concat (map rows ?ss))))) s))
                 (snd (mapping_get (map_all MitreMapper_init
                        (analyze (map (\<lambda>f. (f, 0)) (concat (map rows ?ss))))) s)))
              (map (\<lambda>f. (f, 0)) (concat (map rows ?ss))))"
    using ne by (simp add: label_flows_def load_fitted_disk lab rows_eq Let_def)
  have "map flow.truncate (projr (label_flows steady_lib fitted_disk ''model.pkl'' None mixed_flows))
          = concat (map rows ?ss)"
    unfolding out by (simp add: comp_def truncate_add_columns)
  then have rows_out:
    "map flow.truncate (projr (label_flows steady_lib fitted_disk ''model.pkl'' None mixed_flows))
       = [mk_flow ''10.0.0.1'' 1000 80 6, mk_flow ''10.0.0.1'' 2000 80 6,
          mk_flow ''10.0.0.1'' 3000 80 6]"
    by (simp add: mixed_sessions_rows)
  have ok: "\<not> isl (label_flows steady_lib fitted_disk ''model.pkl'' None mixed_flows)"
    unfolding out by simp
  have "mk_flow ''10.0.0.2'' 1000 80 6 \<in> set mixed_flows"
    by (simp add: mixed_flows_def)
  moreover have "mk_flow ''10.0.0.2'' 1000 80 6
       \<notin> set (map flow.truncate
                 (projr (label_flows steady_lib fitted_disk ''model.pkl'' None mixed_flows)))"
    unfolding rows_out by (simp add: mk_flow_def)
  ultimately show ?thesis using ok rows_out by simp
qed

end
